theory Spec2Isabelle
  imports Complex_Main "HOL-Library.Sublist"
begin

section \<open>The camera control environment of \<^verbatim>\<open>rl_utils/CameraEnviroment.py\<close>\<close>

text \<open>
  The class \<^verbatim>\<open>CameraControlEnv\<close> is embedded as a record of its attributes and
  one function per method. Each method takes the environment and returns its outcome
  together with the environment as the call leaves it, also when the call raises: an
  exception of Python does not undo the assignments made before it.

  Conventions of the embedding:
  \<^item> Python's integers are \<open>int\<close>; its floats are the exact rationals \<open>rat\<close> (no
    rounding is modelled);
  \<^item> an image of the dataset is an array of RGB pixels (the constructor's buffers have
    the shape \<^verbatim>\<open>(64, 64, 3)\<close> and the mean vector has three entries), here rows of
    pixels, a pixel being a triple of integers;
  \<^item> the dataset (unpickled by the constructor) is a parameter: a map from a person to a
    map from \<open>(tilt, pan)\<close> to a pair of images;
  \<^item> \<^verbatim>\<open>np.random.randint(low, high)\<close> returns some integer \<open>v\<close> with
    \<open>low \<le> v < high\<close>, and \<open>randint low high v\<close> says that \<open>v\<close> is a possible result.
    The generator is outside the repository: every call of it consumes one output of
    the generator, and the outputs a method consumes are given to it as an argument.
    \<open>np_randint low high out\<close> is the value the call returns on the output \<open>out\<close>:
    \<open>out\<close> itself when it lies in the range, the value of the range congruent to it
    otherwise, so that every value of the range and no other can be returned;
  \<^item> the attributes \<^verbatim>\<open>tilts\<close>, \<^verbatim>\<open>pans\<close> and \<^verbatim>\<open>mean_vector\<close> are assigned once,
    in the constructor, to literals: they are constants here. The gym attributes
    (\<^verbatim>\<open>metadata\<close>, \<^verbatim>\<open>action_space\<close>, \<^verbatim>\<open>observation_space\<close>) are read by no method
    and are left out.
\<close>

subsection \<open>Data\<close>

datatype exn = AssertionError | IndexError | KeyError | ValueError | UnboundLocalError

type_synonym pixel = "int \<times> int \<times> int"

type_synonym image = "pixel list list"

type_synonym dataset = "int \<rightharpoonup> (int \<times> int \<rightharpoonup> image \<times> image)"

record env =
  persons :: dataset
  testing :: bool
  current_tilt :: int
  current_pan :: int
  current_person :: int
  error_memory :: "rat list"
  observation :: image
  render_observation :: image
  epoch_counter :: int
  iteration_counter :: int
  init_pan_error :: "int list"
  init_tilt_error :: "int list"
  final_pan_error :: "int list"
  final_tilt_error :: "int list"
  current_state_text :: string
  action_text :: string
  interactive :: bool

text \<open>The tuple \<^verbatim>\<open>(observation, reward, done, info)\<close> that \<^verbatim>\<open>step\<close> returns.\<close>

record step_result =
  res_observation :: image
  res_reward :: rat
  res_done :: bool
  res_info :: "(string \<times> string) list"

text \<open>
  The three outputs of the generator that \<^verbatim>\<open>reset\<close> consumes, in the order of its
  three draws.
\<close>

record draws =
  person_draw :: int
  tilt_draw :: int
  pan_draw :: int

definition tilts :: "int list" where
  "tilts = [-60, -30, -15, 0, 15, 30, 60]"

definition pans :: "int list" where
  "pans = [-90, -75, -60, -45, -30, -15, 0, 15, 30, 45, 60, 75, 90]"

definition mean_vector :: pixel where
  "mean_vector = (109, 114, 131)"

subsection \<open>Python and numpy primitives\<close>

definition randint :: "int \<Rightarrow> int \<Rightarrow> int \<Rightarrow> bool" where
  "randint low high v = (low \<le> v \<and> v < high)"

text \<open>
  The value \<^verbatim>\<open>np.random.randint(low, high)\<close> returns on the generator's output
  \<open>out\<close>. Every call of the source has \<open>low < high\<close> (the bounds are literals or the
  length of a grid).
\<close>

definition np_randint :: "int \<Rightarrow> int \<Rightarrow> int \<Rightarrow> int" where
  "np_randint low high out = low + (out - low) mod (high - low)"

text \<open>\<^verbatim>\<open>xs[i]\<close>: a negative index counts from the end, an index out of range raises.\<close>

definition py_index :: "'a list \<Rightarrow> int \<Rightarrow> exn + 'a" where
  "py_index xs i =
     (let n = int (length xs); j = (if i < 0 then i + n else i)
      in if 0 \<le> j \<and> j < n then Inr (xs ! nat j) else Inl IndexError)"

text \<open>\<^verbatim>\<open>xs[-1] = v\<close>: raises on the empty list.\<close>

definition set_last :: "'a list \<Rightarrow> 'a \<Rightarrow> exn + 'a list" where
  "set_last xs v = (if xs = [] then Inl IndexError else Inr (xs[length xs - 1 := v]))"

text \<open>\<^verbatim>\<open>persons[person][(tilt, pan)]\<close>: a missing key raises.\<close>

definition lookup :: "dataset \<Rightarrow> int \<Rightarrow> int \<times> int \<Rightarrow> exn + image \<times> image" where
  "lookup ps p k =
     (case ps p of
        None \<Rightarrow> Inl KeyError
      | Some tbl \<Rightarrow> (case tbl k of None \<Rightarrow> Inl KeyError | Some v \<Rightarrow> Inr v))"

text \<open>\<^verbatim>\<open>observation - mean_vector\<close>: the vector is subtracted from every pixel.\<close>

definition sub_pixel :: "pixel \<Rightarrow> pixel \<Rightarrow> pixel" where
  "sub_pixel m p = (fst p - fst m, fst (snd p) - fst (snd m), snd (snd p) - snd (snd m))"

definition sub_mean :: "image \<Rightarrow> pixel \<Rightarrow> image" where
  "sub_mean img m = map (map (sub_pixel m)) img"

text \<open>\<^verbatim>\<open>np.max\<close> of a list: raises on the empty list.\<close>

fun np_max :: "int list \<Rightarrow> exn + int" where
  "np_max [] = Inl ValueError"
| "np_max (x # xs) = Inr (fold max xs x)"

text \<open>\<^verbatim>\<open>str\<close> of an integer, in decimal.\<close>

definition digit :: "nat \<Rightarrow> char" where
  "digit n = char_of (48 + n)"

function str_nat :: "nat \<Rightarrow> string" where
  "str_nat n = (if n < 10 then [digit n] else str_nat (n div 10) @ [digit (n mod 10)])"
  by pat_completeness auto
termination
  by (relation "measure id") auto

declare str_nat.simps [simp del]

definition str_int :: "int \<Rightarrow> string" where
  "str_int i = (if i < 0 then CHR ''-'' # str_nat (nat (- i)) else str_nat (nat i))"

subsection \<open>The constructor\<close>

text \<open>
  \<^verbatim>\<open>__init__\<close>, lines 11 to 63. \<open>p\<close> is the output of the generator that the draw
  of lines 35 to 38 consumes. \<open>person_drawn\<close> says which persons that draw, and the one
  of \<^verbatim>\<open>reset\<close>, can give.
\<close>

definition person_drawn :: "bool \<Rightarrow> int \<Rightarrow> bool" where
  "person_drawn tst v = (if tst then randint 20 30 v else randint 0 20 v)"

definition init :: "dataset \<Rightarrow> bool \<Rightarrow> bool \<Rightarrow> int \<Rightarrow> env" where
  "init data tst iact p =
     \<lparr> persons = data,
       testing = tst,
       current_tilt = 0,
       current_pan = 0,
       current_person = (if tst then np_randint 20 30 p else np_randint 0 20 p),
       error_memory = [],
       observation = replicate 64 (replicate 64 (0, 0, 0)),
       render_observation = replicate 256 (replicate 256 (0, 0, 0)),
       epoch_counter = - 1,
       iteration_counter = 0,
       init_pan_error = [],
       init_tilt_error = [],
       final_pan_error = [],
       final_tilt_error = [],
       current_state_text = str_int (tilts ! 0) @ ''/'' @ str_int (pans ! 0),
       action_text = ''None'',
       interactive = iact \<rparr>"

subsection \<open>reset\<close>

text \<open>
  The values \<^verbatim>\<open>reset\<close> can draw in an environment (lines 69 to 72, 78 and 79);
  generator outputs that satisfy it stand for themselves.
\<close>

definition reset_draws :: "env \<Rightarrow> draws \<Rightarrow> bool" where
  "reset_draws env d =
     (person_drawn (testing env) (person_draw d) \<and>
      randint 0 (int (length tilts)) (tilt_draw d) \<and>
      randint 0 (int (length pans)) (pan_draw d))"

text \<open>
  \<^verbatim>\<open>reset\<close>, lines 66 to 101. The lookup of line 84 can raise; the person, the emptied
  error memory and the orientation are assigned by then, the statistics are not.
\<close>

definition reset :: "draws \<Rightarrow> env \<Rightarrow> (exn + image) \<times> env" where
  "reset d env =
     (let env1 = env\<lparr>current_person :=
                       (if testing env then np_randint 20 30 (person_draw d)
                        else np_randint 0 20 (person_draw d))\<rparr>;
          env2 = env1\<lparr>error_memory := []\<rparr>;
          env3 = env2\<lparr>current_tilt := np_randint 0 (int (length tilts)) (tilt_draw d)\<rparr>;
          env4 = env3\<lparr>current_pan := np_randint 0 (int (length pans)) (pan_draw d)\<rparr>
      in case py_index tilts (current_tilt env4) of
           Inl e \<Rightarrow> (Inl e, env4)
         | Inr tilt \<Rightarrow>
      (case py_index pans (current_pan env4) of
           Inl e \<Rightarrow> (Inl e, env4)
         | Inr pan \<Rightarrow>
      (case lookup (persons env4) (current_person env4) (tilt, pan) of
           Inl e \<Rightarrow> (Inl e, env4)
         | Inr (obs, robs) \<Rightarrow>
             let env5 = env4\<lparr>observation := sub_mean obs mean_vector,
                             render_observation := robs,
                             epoch_counter := epoch_counter env4 + 1,
                             iteration_counter := 0,
                             init_pan_error := init_pan_error env4 @ [pan],
                             init_tilt_error := init_tilt_error env4 @ [tilt],
                             final_pan_error := final_pan_error env4 @ [pan],
                             final_tilt_error := final_tilt_error env4 @ [tilt],
                             current_state_text := str_int tilt @ ''/'' @ str_int pan,
                             action_text := ''None''\<rparr>
             in (Inr (observation env5), env5))))"

subsection \<open>step\<close>

text \<open>Lines 109 to 120: the action moves one index by one, clamped to the grid.\<close>

definition apply_action :: "env \<Rightarrow> int \<Rightarrow> exn + env" where
  "apply_action env action =
     (if action = 0 then Inr env
      else if action = 1 then Inr (env\<lparr>current_tilt := max 0 (current_tilt env - 1)\<rparr>)
      else if action = 2 then
        Inr (env\<lparr>current_tilt := min (int (length tilts) - 1) (current_tilt env + 1)\<rparr>)
      else if action = 3 then Inr (env\<lparr>current_pan := max 0 (current_pan env - 1)\<rparr>)
      else if action = 4 then
        Inr (env\<lparr>current_pan := min (int (length pans) - 1) (current_pan env + 1)\<rparr>)
      else Inl AssertionError)"

text \<open>Lines 126 to 135: the local \<^verbatim>\<open>action_text\<close> is bound for the five actions only.\<close>

definition action_label :: "int \<Rightarrow> string option" where
  "action_label action =
     (if action = 0 then Some ''Stay''
      else if action = 1 then Some ''Up''
      else if action = 2 then Some ''Down''
      else if action = 3 then Some ''Left''
      else if action = 4 then Some ''Right''
      else None)"

text \<open>
  Line 148. \<open>mt\<close> and \<open>mp\<close> are the two maxima \<^verbatim>\<open>np.max(np.abs(...))\<close>. Division
  by zero (which numpy answers with \<^verbatim>\<open>inf\<close> or \<^verbatim>\<open>nan\<close>) is not modelled: the maxima
  of the two grids are 60 and 90 (\<open>max_abs_tilts\<close>, \<open>max_abs_pans\<close> below).
\<close>

definition calc_error :: "int \<Rightarrow> int \<Rightarrow> int \<Rightarrow> int \<Rightarrow> rat" where
  "calc_error tilt pan mt mp = (of_int tilt / of_int mt)\<^sup>2 + (of_int pan / of_int mp)\<^sup>2"

text \<open>Lines 152 to 156: the reward before the bonus.\<close>

definition base_reward :: "rat \<Rightarrow> rat" where
  "base_reward err =
     (let reward = (2 - err) / 2.0
      in if reward < 0.95 then 0 else (reward - 0.95) / 0.05)"

text \<open>
  Lines 159 to 162, on the error memory after the append of line 149. Python evaluates
  \<^verbatim>\<open>error_memory[-2]\<close> only when the length is above 2, where both indices are in range.
\<close>

definition shaped_reward :: "rat list \<Rightarrow> rat \<Rightarrow> rat" where
  "shaped_reward mem reward =
     (if length mem > 2 \<and> mem ! (length mem - 2) > mem ! (length mem - 1) then reward + 0.1
      else if length mem > 2 \<and> mem ! (length mem - 2) < mem ! (length mem - 1)
        then reward + (- 0.15)
      else reward)"

text \<open>\<^verbatim>\<open>step\<close>, lines 106 to 166.\<close>

definition step :: "env \<Rightarrow> int \<Rightarrow> (exn + step_result) \<times> env" where
  "step env action =
     (case apply_action env action of
        Inl e \<Rightarrow> (Inl e, env)
      | Inr env1 \<Rightarrow>
     (case py_index tilts (current_tilt env1) of
        Inl e \<Rightarrow> (Inl e, env1)
      | Inr tilt \<Rightarrow>
     (case py_index pans (current_pan env1) of
        Inl e \<Rightarrow> (Inl e, env1)
      | Inr pan \<Rightarrow>
     (let env2 = env1\<lparr>current_state_text := str_int tilt @ ''/'' @ str_int pan\<rparr>
      in case action_label action of
        None \<Rightarrow> (Inl UnboundLocalError, env2)
      | Some label \<Rightarrow>
     (let env3 = env2\<lparr>action_text := label\<rparr>
      in case set_last (final_pan_error env3) pan of
        Inl e \<Rightarrow> (Inl e, env3)
      | Inr fpe \<Rightarrow>
     (let env4 = env3\<lparr>final_pan_error := fpe\<rparr>
      in case set_last (final_tilt_error env4) tilt of
        Inl e \<Rightarrow> (Inl e, env4)
      | Inr fte \<Rightarrow>
     (let env5 = env4\<lparr>final_tilt_error := fte\<rparr>
      in case lookup (persons env5) (current_person env5) (tilt, pan) of
        Inl e \<Rightarrow> (Inl e, env5)
      | Inr (obs, robs) \<Rightarrow>
     (let env6 = env5\<lparr>observation := sub_mean obs mean_vector, render_observation := robs\<rparr>
      in case np_max (map abs tilts) of
        Inl e \<Rightarrow> (Inl e, env6)
      | Inr mt \<Rightarrow>
     (case np_max (map abs pans) of
        Inl e \<Rightarrow> (Inl e, env6)
      | Inr mp \<Rightarrow>
     (let err = calc_error tilt pan mt mp;
          env7 = env6\<lparr>error_memory := error_memory env6 @ [err]\<rparr>;
          reward = shaped_reward (error_memory env7) (base_reward err);
          env8 = env7\<lparr>iteration_counter := iteration_counter env7 + 1\<rparr>
      in (Inr \<lparr>res_observation = observation env8, res_reward = reward,
                 res_done = False, res_info = []\<rparr>, env8)))))))))))"

subsection \<open>Sequences of calls\<close>

text \<open>
  A caller's history is a list of calls. \<open>post\<close> is the environment a call leaves
  (also when it raises), \<open>returns\<close> says that it returned a value, \<open>run\<close> is the
  environment after a whole history and \<open>all_return\<close> says that no call of the
  history raised.
\<close>

datatype call = Reset draws | Step int

fun post :: "env \<Rightarrow> call \<Rightarrow> env" where
  "post env (Reset d) = snd (reset d env)"
| "post env (Step a) = snd (step env a)"

fun returns :: "env \<Rightarrow> call \<Rightarrow> bool" where
  "returns env (Reset d) = (\<not> isl (fst (reset d env)))"
| "returns env (Step a) = (\<not> isl (fst (step env a)))"

fun run :: "env \<Rightarrow> call list \<Rightarrow> env" where
  "run env [] = env"
| "run env (c # cs) = run (post env c) cs"

fun all_return :: "env \<Rightarrow> call list \<Rightarrow> bool" where
  "all_return env [] = True"
| "all_return env (c # cs) = (returns env c \<and> all_return (post env c) cs)"

fun is_reset :: "call \<Rightarrow> bool" where
  "is_reset (Reset d) = True"
| "is_reset (Step a) = False"

definition resets :: "call list \<Rightarrow> nat" where
  "resets cs = length (filter is_reset cs)"

text \<open>The orientation indices are inside the grid.\<close>

definition index_ok :: "env \<Rightarrow> bool" where
  "index_ok env =
     (0 \<le> current_tilt env \<and> current_tilt env \<le> int (length tilts) - 1 \<and>
      0 \<le> current_pan env \<and> current_pan env \<le> int (length pans) - 1)"

text \<open>
  Two environments with the same dataset, person, orientation indices, error memory and
  statistics (they may differ in the buffers, the texts, the counters and the flags).
\<close>

definition same_state :: "env \<Rightarrow> env \<Rightarrow> bool" where
  "same_state e1 e2 =
     (persons e1 = persons e2 \<and> current_person e1 = current_person e2 \<and>
      current_tilt e1 = current_tilt e2 \<and> current_pan e1 = current_pan e2 \<and>
      error_memory e1 = error_memory e2 \<and>
      init_pan_error e1 = init_pan_error e2 \<and> init_tilt_error e1 = init_tilt_error e2 \<and>
      final_pan_error e1 = final_pan_error e2 \<and> final_tilt_error e1 = final_tilt_error e2)"

subsection \<open>A small dataset for the concrete runs\<close>

text \<open>
  Thirty persons, each with the same one-pixel image at every cell of the grid: a
  dataset with the total coverage the environment assumes.
\<close>

definition demo_image :: image where
  "demo_image = [[(120, 110, 140)]]"

definition demo_data :: dataset where
  "demo_data p =
     (if 0 \<le> p \<and> p < 30
      then Some (\<lambda>k. if fst k \<in> set tilts \<and> snd k \<in> set pans
                      then Some (demo_image, demo_image) else None)
      else None)"

text \<open>A training environment, reset onto the centre of the grid (tilt 0, pan 0).\<close>

definition centre_draws :: draws where
  "centre_draws = \<lparr>person_draw = 3, tilt_draw = 3, pan_draw = 6\<rparr>"

definition fresh_env :: env where
  "fresh_env = init demo_data False False 0"

definition centre_env :: env where
  "centre_env = snd (reset centre_draws fresh_env)"

text \<open>Training environments reset onto two opposite corners of the grid.\<close>

definition corner_draws :: draws where
  "corner_draws = \<lparr>person_draw = 7, tilt_draw = 0, pan_draw = 12\<rparr>"

definition corner_env :: env where
  "corner_env = snd (reset corner_draws fresh_env)"

definition far_corner_draws :: draws where
  "far_corner_draws = \<lparr>person_draw = 19, tilt_draw = 6, pan_draw = 0\<rparr>"

definition far_corner_env :: env where
  "far_corner_env = snd (reset far_corner_draws fresh_env)"

text \<open>
  The rest of a history leaves the current episode as it is: it is empty, or its first
  call is a reset.
\<close>

fun episode_over :: "call list \<Rightarrow> bool" where
  "episode_over [] = True"
| "episode_over (c # cs) = is_reset c"

text \<open>
  Two episodes: from the centre one step to the left and one up, then from a corner one
  step against the boundary.
\<close>

definition episode_one :: "call list" where
  "episode_one = [Reset centre_draws, Step 4, Step 2]"

definition episode_two :: "call list" where
  "episode_two = [Reset corner_draws, Step 1]"

text \<open>
  From the centre twice to the left (pan 15, then pan 30): the next step is the third of
  the episode.
\<close>

definition drift_env :: env where
  "drift_env = run centre_env [Step 4, Step 4]"

text \<open>
  A dataset whose images tell the key they are stored under: the one pixel of the
  image of person \<open>p\<close> at \<open>(tilt, pan)\<close> is \<open>(p, tilt, pan)\<close>, and the display image has
  a second row. With it, a testing environment and three outputs of the generator.
\<close>

definition varied_table :: "int \<Rightarrow> (int \<times> int \<rightharpoonup> image \<times> image)" where
  "varied_table p k =
     (if fst k \<in> set tilts \<and> snd k \<in> set pans
      then Some ([[(p, fst k, snd k)]], [[(p, fst k, snd k)], [(0, 0, 0)]])
      else None)"

definition varied_data :: dataset where
  "varied_data p = (if 0 \<le> p \<and> p < 30 then Some (varied_table p) else None)"

definition testing_env :: env where
  "testing_env = init varied_data True False 44"

definition side_draws :: draws where
  "side_draws = \<lparr>person_draw = 27, tilt_draw = 5, pan_draw = 2\<rparr>"

text \<open>A training environment over a dataset with no entry at all.\<close>

definition bare_env :: env where
  "bare_env = init (\<lambda>p. None) False False 0"

section \<open>Properties\<close>

subsection \<open>The Python primitives\<close>

lemma max_abs_tilts: "np_max (map abs tilts) = Inr 60"
  by (simp add: tilts_def)

lemma max_abs_pans: "np_max (map abs pans) = Inr 90"
  by (simp add: pans_def)

lemma apply_action_fields:
  assumes "apply_action env a = Inr env1"
  shows "persons env1 = persons env" "current_person env1 = current_person env"
    "final_pan_error env1 = final_pan_error env" "final_tilt_error env1 = final_tilt_error env"
    "error_memory env1 = error_memory env" "iteration_counter env1 = iteration_counter env"
    "init_pan_error env1 = init_pan_error env" "init_tilt_error env1 = init_tilt_error env"
    "testing env1 = testing env"
  using assms by (auto simp: apply_action_def split: if_splits)

subsection \<open>What a returning step has done\<close>

text \<open>
  The outcomes of a call of \<open>step\<close>, in the order of the source: the assertion of
  line 120, the two index reads of line 123, the two assignments of lines 141 and 142
  (which raise on an empty list), the lookup of line 144, and the return. Each case
  gives the result and the environment the call leaves.
\<close>

lemma py_index_Inl: "py_index xs i = Inl e \<Longrightarrow> e = IndexError"
  by (simp add: py_index_def Let_def split: if_splits)

lemma set_last_Inl: "set_last xs v = Inl e \<Longrightarrow> e = IndexError \<and> xs = []"
  by (simp add: set_last_def split: if_splits)

lemma set_last_Inr: "set_last xs v = Inr ys \<Longrightarrow> xs \<noteq> [] \<and> ys = butlast xs @ [v]"
  by (cases xs rule: rev_cases) (simp_all add: set_last_def)

lemma lookup_Inl: "lookup ps p k = Inl e \<Longrightarrow> e = KeyError"
  by (simp add: lookup_def split: option.splits)

lemma apply_action_Inl: "apply_action env a = Inl e \<Longrightarrow> e = AssertionError \<and> a \<notin> {0, 1, 2, 3, 4}"
  by (simp add: apply_action_def split: if_splits)

lemma apply_action_Inr: "apply_action env a = Inr env1 \<Longrightarrow> a \<in> {0, 1, 2, 3, 4} \<and> (\<exists>l. action_label a = Some l)"
  by (simp add: apply_action_def action_label_def split: if_splits)

lemma step_cases [case_names bad_action tilt_index pan_index no_pan_stats no_tilt_stats missing returns]:
  obtains
    "a \<notin> {0, 1, 2, 3, 4}" "step env a = (Inl AssertionError, env)"
  | env1 where "apply_action env a = Inr env1" "step env a = (Inl IndexError, env1)"
      "py_index tilts (current_tilt env1) = Inl IndexError"
  | env1 tilt where "apply_action env a = Inr env1" "step env a = (Inl IndexError, env1)"
      "py_index tilts (current_tilt env1) = Inr tilt"
      "py_index pans (current_pan env1) = Inl IndexError"
  | env1 tilt pan label where "apply_action env a = Inr env1"
      "py_index tilts (current_tilt env1) = Inr tilt"
      "py_index pans (current_pan env1) = Inr pan"
      "action_label a = Some label"
      "final_pan_error env = []"
      "step env a = (Inl IndexError,
         env1\<lparr>current_state_text := str_int tilt @ ''/'' @ str_int pan, action_text := label\<rparr>)"
  | env1 tilt pan label where "apply_action env a = Inr env1"
      "py_index tilts (current_tilt env1) = Inr tilt"
      "py_index pans (current_pan env1) = Inr pan"
      "action_label a = Some label"
      "final_pan_error env \<noteq> []" "final_tilt_error env = []"
      "step env a = (Inl IndexError,
         env1\<lparr>current_state_text := str_int tilt @ ''/'' @ str_int pan, action_text := label,
           final_pan_error := butlast (final_pan_error env) @ [pan]\<rparr>)"
  | env1 tilt pan label where "apply_action env a = Inr env1"
      "py_index tilts (current_tilt env1) = Inr tilt"
      "py_index pans (current_pan env1) = Inr pan"
      "action_label a = Some label"
      "final_pan_error env \<noteq> []" "final_tilt_error env \<noteq> []"
      "lookup (persons env) (current_person env) (tilt, pan) = Inl KeyError"
      "step env a = (Inl KeyError,
         env1\<lparr>current_state_text := str_int tilt @ ''/'' @ str_int pan, action_text := label,
           final_pan_error := butlast (final_pan_error env) @ [pan],
           final_tilt_error := butlast (final_tilt_error env) @ [tilt]\<rparr>)"
  | env1 tilt pan label obs robs where "apply_action env a = Inr env1"
      "py_index tilts (current_tilt env1) = Inr tilt"
      "py_index pans (current_pan env1) = Inr pan"
      "action_label a = Some label"
      "final_pan_error env \<noteq> []" "final_tilt_error env \<noteq> []"
      "lookup (persons env) (current_person env) (tilt, pan) = Inr (obs, robs)"
      "step env a =
         (Inr \<lparr>res_observation = sub_mean obs mean_vector,
            res_reward = shaped_reward (error_memory env @ [calc_error tilt pan 60 90])
              (base_reward (calc_error tilt pan 60 90)),
            res_done = False, res_info = []\<rparr>,
          env1\<lparr>current_state_text := str_int tilt @ ''/'' @ str_int pan, action_text := label,
            final_pan_error := butlast (final_pan_error env) @ [pan],
            final_tilt_error := butlast (final_tilt_error env) @ [tilt],
            observation := sub_mean obs mean_vector, render_observation := robs,
            error_memory := error_memory env @ [calc_error tilt pan 60 90],
            iteration_counter := iteration_counter env + 1\<rparr>)"
proof (cases "apply_action env a")
  case (Inl e)
  with apply_action_Inl [OF Inl] that(1) show ?thesis by (simp add: step_def)
next
  case a1: (Inr env1)
  note f = apply_action_fields [OF a1]
  from apply_action_Inr [OF a1] obtain label where a4: "action_label a = Some label" by blast
  show ?thesis
  proof (cases "py_index tilts (current_tilt env1)")
    case (Inl e)
    with py_index_Inl [OF Inl] a1 that(2) show ?thesis by (simp add: step_def)
  next
    case a2: (Inr tilt)
    show ?thesis
    proof (cases "py_index pans (current_pan env1)")
      case (Inl e)
      with py_index_Inl [OF Inl] a1 a2 that(3) show ?thesis by (simp add: step_def)
    next
      case a3: (Inr pan)
      show ?thesis
      proof (cases "set_last (final_pan_error env) pan")
        case (Inl e)
        with set_last_Inl [OF Inl] a1 a2 a3 a4 f that(4) [OF a1 a2 a3 a4] show ?thesis
          by (simp add: step_def)
      next
        case (Inr fpe)
        note a5 = Inr set_last_Inr [OF Inr]
        show ?thesis
        proof (cases "set_last (final_tilt_error env) tilt")
          case (Inl e)
          with set_last_Inl [OF Inl] a1 a2 a3 a4 a5 f that(5) [OF a1 a2 a3 a4] show ?thesis
            by (simp add: step_def)
        next
          case (Inr fte)
          note a6 = Inr set_last_Inr [OF Inr]
          show ?thesis
          proof (cases "lookup (persons env) (current_person env) (tilt, pan)")
            case (Inl e)
            with lookup_Inl [OF Inl] a1 a2 a3 a4 a5 a6 f that(6) [OF a1 a2 a3 a4] show ?thesis
              by (simp add: step_def)
          next
            case (Inr pr)
            then obtain obs robs where
              a7: "lookup (persons env) (current_person env) (tilt, pan) = Inr (obs, robs)"
              by (cases pr) simp
            show ?thesis
              using a1 a2 a3 a4 a5 a6 a7 f that(7) [OF a1 a2 a3 a4 _ _ a7]
              by (simp add: step_def max_abs_tilts max_abs_pans Let_def)
          qed
        qed
      qed
    qed
  qed
qed

lemma step_returnsE:
  assumes "fst (step env a) = Inr out"
  obtains env1 tilt pan label obs robs where
    "apply_action env a = Inr env1"
    "py_index tilts (current_tilt env1) = Inr tilt"
    "py_index pans (current_pan env1) = Inr pan"
    "action_label a = Some label"
    "final_pan_error env \<noteq> []" "final_tilt_error env \<noteq> []"
    "lookup (persons env) (current_person env) (tilt, pan) = Inr (obs, robs)"
    "snd (step env a) =
       env1\<lparr>current_state_text := str_int tilt @ ''/'' @ str_int pan, action_text := label,
         final_pan_error := butlast (final_pan_error env) @ [pan],
         final_tilt_error := butlast (final_tilt_error env) @ [tilt],
         observation := sub_mean obs mean_vector, render_observation := robs,
         error_memory := error_memory env @ [calc_error tilt pan 60 90],
         iteration_counter := iteration_counter env + 1\<rparr>"
    "out = \<lparr>res_observation = sub_mean obs mean_vector,
        res_reward = shaped_reward (error_memory env @ [calc_error tilt pan 60 90])
          (base_reward (calc_error tilt pan 60 90)),
        res_done = False, res_info = []\<rparr>"
proof (cases rule: step_cases [of a env])
  case (returns env1 tilt pan label obs robs)
  from assms returns(8) have o: "out = \<lparr>res_observation = sub_mean obs mean_vector,
        res_reward = shaped_reward (error_memory env @ [calc_error tilt pan 60 90])
          (base_reward (calc_error tilt pan 60 90)),
        res_done = False, res_info = []\<rparr>" by simp
  from returns(8) have s: "snd (step env a) =
       env1\<lparr>current_state_text := str_int tilt @ ''/'' @ str_int pan, action_text := label,
         final_pan_error := butlast (final_pan_error env) @ [pan],
         final_tilt_error := butlast (final_tilt_error env) @ [tilt],
         observation := sub_mean obs mean_vector, render_observation := robs,
         error_memory := error_memory env @ [calc_error tilt pan 60 90],
         iteration_counter := iteration_counter env + 1\<rparr>" by simp
  show ?thesis by (rule that [OF returns(1-7) s o])
next
  case bad_action
  with assms show ?thesis by simp
next
  case (tilt_index env1)
  with assms show ?thesis by simp
next
  case (pan_index env1 tilt)
  with assms show ?thesis by simp
next
  case (no_pan_stats env1 tilt pan label)
  from assms no_pan_stats(6) show ?thesis by simp
next
  case (no_tilt_stats env1 tilt pan label)
  from assms no_tilt_stats(7) show ?thesis by simp
next
  case (missing env1 tilt pan label)
  from assms missing(8) show ?thesis by simp
qed

subsection \<open>The concrete runs\<close>

lemmas demo_defs = centre_env_def fresh_env_def centre_draws_def init_def reset_def
  np_randint_def
  py_index_def lookup_def demo_data_def demo_image_def sub_mean_def sub_pixel_def
  mean_vector_def tilts_def pans_def Let_def

lemmas step_defs = step_def apply_action_def action_label_def set_last_def calc_error_def
  base_reward_def shaped_reward_def power2_eq_square

lemma centre_step_left:
  "fst (step centre_env 4) =
     Inr \<lparr>res_observation = [[(11, - 4, 9)]], res_reward = 13 / 18,
          res_done = False, res_info = []\<rparr>"
  by (simp add: demo_defs step_defs)

subsection \<open>Termination flag\<close>

text \<open>
  Claim C5. Every call of \<open>step\<close> that returns, returns \<open>done = False\<close>, whatever the
  action and whatever the environment (so whatever the history of actions).
\<close>

theorem done_always_false:
  "fst (step env a) = Inr out \<Longrightarrow> res_done out = False"
  by (erule step_returnsE) simp

theorem done_always_false_witness:
  "fst (step centre_env 4) =
     Inr \<lparr>res_observation = [[(11, - 4, 9)]], res_reward = 13 / 18,
          res_done = False, res_info = []\<rparr> \<and>
   res_done \<lparr>res_observation = [[(11, - 4, 9)]], res_reward = 13 / 18,
          res_done = False, res_info = []\<rparr> = False"
  using done_always_false [OF centre_step_left] centre_step_left by simp

subsection \<open>Actions outside the action space\<close>

text \<open>
  Claim C4. For an action outside \<open>{0, 1, 2, 3, 4}\<close> the call of \<open>step\<close> raises the
  assertion error of line 120 and leaves the environment as it was: nothing is
  assigned before the assertion. For an action of \<open>{0, 1, 2, 3, 4}\<close> the dispatch of
  lines 109 to 120 raises nothing, and the call does not end in an assertion error.
\<close>

theorem invalid_action_fails:
  "(a \<notin> {0, 1, 2, 3, 4} \<longrightarrow> step env a = (Inl AssertionError, env)) \<and>
   (a \<in> {0, 1, 2, 3, 4} \<longrightarrow>
      (\<exists>env1. apply_action env a = Inr env1) \<and> fst (step env a) \<noteq> Inl AssertionError)"
proof (intro conjI impI)
  assume "a \<notin> {0, 1, 2, 3, 4}"
  then show "step env a = (Inl AssertionError, env)"
    by (simp add: step_def apply_action_def)
next
  assume "a \<in> {0, 1, 2, 3, 4}"
  then show "\<exists>env1. apply_action env a = Inr env1"
    by (auto simp: apply_action_def)
next
  assume v: "a \<in> {0, 1, 2, 3, 4}"
  show "fst (step env a) \<noteq> Inl AssertionError"
  proof (cases rule: step_cases [of a env])
    case bad_action
    with v show ?thesis by simp
  next
    case (tilt_index env1)
    then show ?thesis by simp
  next
    case (pan_index env1 tilt)
    then show ?thesis by simp
  next
    case (no_pan_stats env1 tilt pan label)
    from no_pan_stats(6) show ?thesis by simp
  next
    case (no_tilt_stats env1 tilt pan label)
    from no_tilt_stats(7) show ?thesis by simp
  next
    case (missing env1 tilt pan label)
    from missing(8) show ?thesis by simp
  next
    case (returns env1 tilt pan label obs robs)
    from returns(8) show ?thesis by simp
  qed
qed

theorem invalid_action_fails_witness:
  "(7::int) \<notin> {0, 1, 2, 3, 4} \<and> step centre_env 7 = (Inl AssertionError, centre_env) \<and>
   (2::int) \<in> {0, 1, 2, 3, 4} \<and> (\<exists>env1. apply_action centre_env 2 = Inr env1) \<and>
   fst (step centre_env 2) \<noteq> Inl AssertionError"
  using invalid_action_fails [of 7 centre_env] invalid_action_fails [of 2 centre_env]
  by simp

subsection \<open>Determinism of step\<close>

text \<open>
  \<open>step\<close> takes no drawn value: lines 106 to 166 call no random generator, so the
  embedding is a function of the environment and the action alone. Beyond that, its
  result depends only on the dataset, the person, the orientation indices, the error
  memory and the statistics, and it leaves these equal when they were equal.
\<close>

lemma set_last_empty: "set_last [] v = Inl IndexError"
  by (simp add: set_last_def)

lemma set_last_nonempty: "xs \<noteq> [] \<Longrightarrow> set_last xs v = Inr (butlast xs @ [v])"
  by (cases xs rule: rev_cases) (simp_all add: set_last_def)

lemma apply_action_same:
  assumes "same_state e1 e2" "apply_action e1 a = Inr env1"
  obtains env2 where "apply_action e2 a = Inr env2" "same_state env1 env2"
  using assms by (auto simp: apply_action_def same_state_def split: if_splits)

lemma same_stateD:
  assumes "same_state e1 e2"
  shows "persons e1 = persons e2" "current_person e1 = current_person e2"
    "current_tilt e1 = current_tilt e2" "current_pan e1 = current_pan e2"
    "error_memory e1 = error_memory e2"
    "init_pan_error e1 = init_pan_error e2" "init_tilt_error e1 = init_tilt_error e2"
    "final_pan_error e1 = final_pan_error e2" "final_tilt_error e1 = final_tilt_error e2"
  using assms by (simp_all add: same_state_def)

lemma step_same_state:
  assumes "same_state e1 e2"
  shows "fst (step e1 a) = fst (step e2 a) \<and> same_state (snd (step e1 a)) (snd (step e2 a))"
proof -
  note eq = same_stateD [OF assms]
  show ?thesis
  proof (cases rule: step_cases [of a e1])
    case bad_action
    then have "step e2 a = (Inl AssertionError, e2)" by (simp add: step_def apply_action_def)
    with bad_action(2) assms show ?thesis by simp
  next
    case (tilt_index env1)
    from apply_action_same [OF assms tilt_index(1)] obtain env2
      where b: "apply_action e2 a = Inr env2" "same_state env1 env2" by blast
    note eq1 = same_stateD [OF b(2)]
    from tilt_index(3) eq1 have "py_index tilts (current_tilt env2) = Inl IndexError" by simp
    with b(1) have "step e2 a = (Inl IndexError, env2)" by (simp add: step_def)
    with tilt_index(2) b(2) show ?thesis by simp
  next
    case (pan_index env1 tilt)
    from apply_action_same [OF assms pan_index(1)] obtain env2
      where b: "apply_action e2 a = Inr env2" "same_state env1 env2" by blast
    note eq1 = same_stateD [OF b(2)]
    from pan_index(3,4) eq1 have "py_index tilts (current_tilt env2) = Inr tilt"
      "py_index pans (current_pan env2) = Inl IndexError" by simp_all
    with b(1) have "step e2 a = (Inl IndexError, env2)" by (simp add: step_def)
    with pan_index(2) b(2) show ?thesis by simp
  next
    case (no_pan_stats env1 tilt pan label)
    from apply_action_same [OF assms no_pan_stats(1)] obtain env2
      where b: "apply_action e2 a = Inr env2" "same_state env1 env2" by blast
    note eq1 = same_stateD [OF b(2)]
    note f = apply_action_fields [OF b(1)]
    from no_pan_stats(2,3) eq1 have i: "py_index tilts (current_tilt env2) = Inr tilt"
      "py_index pans (current_pan env2) = Inr pan" by simp_all
    from no_pan_stats(5) eq have "final_pan_error e2 = []" by simp
    with b(1) i no_pan_stats(4) f have "step e2 a = (Inl IndexError,
         env2\<lparr>current_state_text := str_int tilt @ ''/'' @ str_int pan, action_text := label\<rparr>)"
      by (simp add: step_def set_last_empty)
    with no_pan_stats(6) b(2) show ?thesis by (simp add: same_state_def)
  next
    case (no_tilt_stats env1 tilt pan label)
    from apply_action_same [OF assms no_tilt_stats(1)] obtain env2
      where b: "apply_action e2 a = Inr env2" "same_state env1 env2" by blast
    note eq1 = same_stateD [OF b(2)]
    note f = apply_action_fields [OF b(1)]
    from no_tilt_stats(2,3) eq1 have i: "py_index tilts (current_tilt env2) = Inr tilt"
      "py_index pans (current_pan env2) = Inr pan" by simp_all
    from no_tilt_stats(5,6) eq have "final_pan_error e2 \<noteq> []" "final_tilt_error e2 = []"
      by simp_all
    with b(1) i no_tilt_stats(4) f have "step e2 a = (Inl IndexError,
         env2\<lparr>current_state_text := str_int tilt @ ''/'' @ str_int pan, action_text := label,
           final_pan_error := butlast (final_pan_error e2) @ [pan]\<rparr>)"
      by (simp add: step_def set_last_nonempty set_last_empty)
    with no_tilt_stats(7) b(2) eq show ?thesis
      by (simp add: same_state_def)
  next
    case (missing env1 tilt pan label)
    from apply_action_same [OF assms missing(1)] obtain env2
      where b: "apply_action e2 a = Inr env2" "same_state env1 env2" by blast
    note eq1 = same_stateD [OF b(2)]
    note f = apply_action_fields [OF b(1)]
    from missing(2,3) eq1 have i: "py_index tilts (current_tilt env2) = Inr tilt"
      "py_index pans (current_pan env2) = Inr pan" by simp_all
    from missing(5,6,7) eq have "final_pan_error e2 \<noteq> []" "final_tilt_error e2 \<noteq> []"
      "lookup (persons e2) (current_person e2) (tilt, pan) = Inl KeyError"
      by simp_all
    with b(1) i missing(4) f have "step e2 a = (Inl KeyError,
         env2\<lparr>current_state_text := str_int tilt @ ''/'' @ str_int pan, action_text := label,
           final_pan_error := butlast (final_pan_error e2) @ [pan],
           final_tilt_error := butlast (final_tilt_error e2) @ [tilt]\<rparr>)"
      by (simp add: step_def set_last_nonempty)
    with missing(8) b(2) eq show ?thesis
      by (simp add: same_state_def)
  next
    case (returns env1 tilt pan label obs robs)
    from apply_action_same [OF assms returns(1)] obtain env2
      where b: "apply_action e2 a = Inr env2" "same_state env1 env2" by blast
    note eq1 = same_stateD [OF b(2)]
    note f = apply_action_fields [OF b(1)]
    from returns(2,3) eq1 have i: "py_index tilts (current_tilt env2) = Inr tilt"
      "py_index pans (current_pan env2) = Inr pan" by simp_all
    from returns(5,6,7) eq have "final_pan_error e2 \<noteq> []" "final_tilt_error e2 \<noteq> []"
      "lookup (persons e2) (current_person e2) (tilt, pan) = Inr (obs, robs)"
      by simp_all
    with b(1) i returns(4) f have "step e2 a =
         (Inr \<lparr>res_observation = sub_mean obs mean_vector,
            res_reward = shaped_reward (error_memory e2 @ [calc_error tilt pan 60 90])
              (base_reward (calc_error tilt pan 60 90)),
            res_done = False, res_info = []\<rparr>,
          env2\<lparr>current_state_text := str_int tilt @ ''/'' @ str_int pan, action_text := label,
            final_pan_error := butlast (final_pan_error e2) @ [pan],
            final_tilt_error := butlast (final_tilt_error e2) @ [tilt],
            observation := sub_mean obs mean_vector, render_observation := robs,
            error_memory := error_memory e2 @ [calc_error tilt pan 60 90],
            iteration_counter := iteration_counter e2 + 1\<rparr>)"
      by (simp add: step_def set_last_nonempty max_abs_tilts max_abs_pans Let_def)
    with returns(8) b(2) eq show ?thesis
      by (simp add: same_state_def)
  qed
qed

text \<open>
  Claim C10. \<open>step\<close> is deterministic. Two calls with the same action from identical
  environments give identical results and identical environments; and two calls from
  environments with the same dataset, person, orientation indices, error memory and
  statistics give the same outcome (the same tuple, or the same exception) and leave
  environments that again agree on all of these.
\<close>

theorem step_deterministic:
  "(e1 = e2 \<longrightarrow> step e1 a = step e2 a) \<and>
   (same_state e1 e2 \<longrightarrow>
      fst (step e1 a) = fst (step e2 a) \<and> same_state (snd (step e1 a)) (snd (step e2 a)))"
  using step_same_state by blast

lemma centre_same:
  "same_state centre_env (centre_env\<lparr>iteration_counter := 40, action_text := ''Up''\<rparr>)"
  by (simp add: same_state_def)

theorem step_deterministic_witness:
  "same_state centre_env (centre_env\<lparr>iteration_counter := 40, action_text := ''Up''\<rparr>) \<and>
   fst (step centre_env 4) =
     fst (step (centre_env\<lparr>iteration_counter := 40, action_text := ''Up''\<rparr>) 4) \<and>
   same_state (snd (step centre_env 4))
     (snd (step (centre_env\<lparr>iteration_counter := 40, action_text := ''Up''\<rparr>) 4))"
  using step_deterministic
    [of centre_env "centre_env\<lparr>iteration_counter := 40, action_text := ''Up''\<rparr>" 4]
    centre_same by simp

subsection \<open>What a call of reset has done\<close>

text \<open>
  The outcomes of a call of \<open>reset\<close>: the two index reads of line 82, the lookup of
  line 84, and the return.
\<close>

lemma reset_cases [case_names tilt_index pan_index missing returns]:
  obtains
    p i j where
    "py_index tilts i = Inl IndexError"
    "reset d env = (Inl IndexError,
       env\<lparr>current_person := p, error_memory := [], current_tilt := i, current_pan := j\<rparr>)"
    "p = (if testing env then np_randint 20 30 (person_draw d)
          else np_randint 0 20 (person_draw d))"
    "i = np_randint 0 (int (length tilts)) (tilt_draw d)"
    "j = np_randint 0 (int (length pans)) (pan_draw d)"
  | p i j tilt where "py_index tilts i = Inr tilt"
    "py_index pans j = Inl IndexError"
    "reset d env = (Inl IndexError,
       env\<lparr>current_person := p, error_memory := [], current_tilt := i, current_pan := j\<rparr>)"
    "p = (if testing env then np_randint 20 30 (person_draw d)
          else np_randint 0 20 (person_draw d))"
    "i = np_randint 0 (int (length tilts)) (tilt_draw d)"
    "j = np_randint 0 (int (length pans)) (pan_draw d)"
  | p i j tilt pan where "py_index tilts i = Inr tilt"
    "py_index pans j = Inr pan"
    "lookup (persons env) p (tilt, pan) = Inl KeyError"
    "reset d env = (Inl KeyError,
       env\<lparr>current_person := p, error_memory := [], current_tilt := i, current_pan := j\<rparr>)"
    "p = (if testing env then np_randint 20 30 (person_draw d)
          else np_randint 0 20 (person_draw d))"
    "i = np_randint 0 (int (length tilts)) (tilt_draw d)"
    "j = np_randint 0 (int (length pans)) (pan_draw d)"
  | p i j tilt pan obs robs where "py_index tilts i = Inr tilt"
    "py_index pans j = Inr pan"
    "lookup (persons env) p (tilt, pan) = Inr (obs, robs)"
    "reset d env = (Inr (sub_mean obs mean_vector),
       env\<lparr>current_person := p, error_memory := [], current_tilt := i, current_pan := j,
         observation := sub_mean obs mean_vector, render_observation := robs,
         epoch_counter := epoch_counter env + 1, iteration_counter := 0,
         init_pan_error := init_pan_error env @ [pan],
         init_tilt_error := init_tilt_error env @ [tilt],
         final_pan_error := final_pan_error env @ [pan],
         final_tilt_error := final_tilt_error env @ [tilt],
         current_state_text := str_int tilt @ ''/'' @ str_int pan,
         action_text := ''None''\<rparr>)"
    "p = (if testing env then np_randint 20 30 (person_draw d)
          else np_randint 0 20 (person_draw d))"
    "i = np_randint 0 (int (length tilts)) (tilt_draw d)"
    "j = np_randint 0 (int (length pans)) (pan_draw d)"
proof -
  define p where "p = (if testing env then np_randint 20 30 (person_draw d)
          else np_randint 0 20 (person_draw d))"
  define i where "i = np_randint 0 (int (length tilts)) (tilt_draw d)"
  define j where "j = np_randint 0 (int (length pans)) (pan_draw d)"
  note defs = p_def i_def j_def
  show ?thesis
  proof (cases "py_index tilts i")
    case (Inl e)
    with py_index_Inl [OF Inl] that(1) [OF _ _ defs] show ?thesis
      by (simp add: reset_def flip: defs)
  next
    case a1: (Inr tilt)
    show ?thesis
    proof (cases "py_index pans j")
      case (Inl e)
      with py_index_Inl [OF Inl] a1 that(2) [OF _ _ _ defs] show ?thesis
        by (simp add: reset_def flip: defs)
    next
      case a2: (Inr pan)
      show ?thesis
      proof (cases "lookup (persons env) p (tilt, pan)")
        case (Inl e)
        with lookup_Inl [OF Inl] a1 a2 that(3) [OF _ _ _ _ defs] show ?thesis
          by (simp add: reset_def flip: defs)
      next
        case (Inr pr)
        then obtain obs robs where
          a3: "lookup (persons env) p (tilt, pan) = Inr (obs, robs)"
          by (cases pr) simp
        with a1 a2 that(4) [OF _ _ _ _ defs] show ?thesis
          by (simp add: reset_def flip: defs)
      qed
    qed
  qed
qed

subsection \<open>The orientation indices stay inside the grid\<close>

lemma py_index_in_range:
  "0 \<le> i \<Longrightarrow> i < int (length xs) \<Longrightarrow> py_index xs i = Inr (xs ! nat i)"
  by (simp add: py_index_def)

lemma apply_action_index_ok:
  "index_ok env \<Longrightarrow> apply_action env a = Inr env1 \<Longrightarrow> index_ok env1"
  by (auto simp: apply_action_def index_ok_def tilts_def pans_def split: if_splits)

lemma index_ok_upd [simp]:
  "index_ok (env\<lparr>current_state_text := t\<rparr>) = index_ok env"
  "index_ok (env\<lparr>action_text := t\<rparr>) = index_ok env"
  "index_ok (env\<lparr>final_pan_error := l\<rparr>) = index_ok env"
  "index_ok (env\<lparr>final_tilt_error := l\<rparr>) = index_ok env"
  "index_ok (env\<lparr>init_pan_error := l\<rparr>) = index_ok env"
  "index_ok (env\<lparr>init_tilt_error := l\<rparr>) = index_ok env"
  "index_ok (env\<lparr>observation := im\<rparr>) = index_ok env"
  "index_ok (env\<lparr>render_observation := im\<rparr>) = index_ok env"
  "index_ok (env\<lparr>error_memory := m\<rparr>) = index_ok env"
  "index_ok (env\<lparr>iteration_counter := n\<rparr>) = index_ok env"
  "index_ok (env\<lparr>epoch_counter := n\<rparr>) = index_ok env"
  "index_ok (env\<lparr>current_person := n\<rparr>) = index_ok env"
  by (simp_all add: index_ok_def)

lemma step_index_ok: "index_ok env \<Longrightarrow> index_ok (snd (step env a))"
proof (cases rule: step_cases [of a env])
  case bad_action
  assume "index_ok env"
  with bad_action(2) show ?thesis by simp
next
  case (tilt_index env1)
  assume "index_ok env"
  from apply_action_index_ok [OF this tilt_index(1)] tilt_index(2) show ?thesis by simp
next
  case (pan_index env1 tilt)
  assume "index_ok env"
  from apply_action_index_ok [OF this pan_index(1)] pan_index(2) show ?thesis by simp
next
  case (no_pan_stats env1 tilt pan label)
  assume "index_ok env"
  from apply_action_index_ok [OF this no_pan_stats(1)] no_pan_stats(6) show ?thesis by simp
next
  case (no_tilt_stats env1 tilt pan label)
  assume "index_ok env"
  from apply_action_index_ok [OF this no_tilt_stats(1)] no_tilt_stats(7) show ?thesis by simp
next
  case (missing env1 tilt pan label)
  assume "index_ok env"
  from apply_action_index_ok [OF this missing(1)] missing(8) show ?thesis by simp
next
  case (returns env1 tilt pan label obs robs)
  assume "index_ok env"
  from apply_action_index_ok [OF this returns(1)] returns(8) show ?thesis by simp
qed

lemma np_randint_range:
  assumes "low < high"
  shows "low \<le> np_randint low high out \<and> np_randint low high out < high"
proof -
  from assms have pos: "0 < high - low" by simp
  from pos_mod_sign [OF pos, of "out - low"] pos_mod_bound [OF pos, of "out - low"]
  show ?thesis unfolding np_randint_def by linarith
qed

lemma np_randint_in_range: "randint low high v \<Longrightarrow> np_randint low high v = v"
  by (simp add: np_randint_def randint_def)

lemma drawn_index_ok:
  "index_ok (env\<lparr>current_tilt := np_randint 0 (int (length tilts)) x,
     current_pan := np_randint 0 (int (length pans)) y\<rparr>)"
  using np_randint_range [of 0 "int (length tilts)" x]
    np_randint_range [of 0 "int (length pans)" y]
  by (simp add: index_ok_def tilts_def pans_def)

lemma reset_index_ok: "reset_draws env d \<Longrightarrow> index_ok (snd (reset d env))"
proof (cases rule: reset_cases [of d env])
  case (tilt_index p i j)
  from tilt_index(2,4,5) drawn_index_ok [where env = env and x = "tilt_draw d" and y = "pan_draw d"]
  show ?thesis by (simp add: index_ok_def)
next
  case (pan_index p i j tilt)
  from pan_index(3,5,6) drawn_index_ok [where env = env and x = "tilt_draw d" and y = "pan_draw d"]
  show ?thesis by (simp add: index_ok_def)
next
  case (missing p i j tilt pan)
  from missing(4,6,7) drawn_index_ok [where env = env and x = "tilt_draw d" and y = "pan_draw d"]
  show ?thesis by (simp add: index_ok_def)
next
  case (returns p i j tilt pan obs robs)
  from returns(4,6,7) drawn_index_ok [where env = env and x = "tilt_draw d" and y = "pan_draw d"]
  show ?thesis by (simp add: index_ok_def)
qed

lemma run_steps_index_ok: "index_ok env \<Longrightarrow> index_ok (run env (map Step acts))"
  by (induction acts arbitrary: env) (simp_all add: step_index_ok)

lemma step_indices:
  "current_tilt (snd (step env a)) =
     (if a = 1 then max 0 (current_tilt env - 1)
      else if a = 2 then min (int (length tilts) - 1) (current_tilt env + 1)
      else current_tilt env)"
  "current_pan (snd (step env a)) =
     (if a = 3 then max 0 (current_pan env - 1)
      else if a = 4 then min (int (length pans) - 1) (current_pan env + 1)
      else current_pan env)"
proof -
  have "current_tilt (snd (step env a)) =
     (if a = 1 then max 0 (current_tilt env - 1)
      else if a = 2 then min (int (length tilts) - 1) (current_tilt env + 1)
      else current_tilt env) \<and> current_pan (snd (step env a)) =
     (if a = 3 then max 0 (current_pan env - 1)
      else if a = 4 then min (int (length pans) - 1) (current_pan env + 1)
      else current_pan env)"
  proof (cases rule: step_cases [of a env])
    case bad_action
    then show ?thesis by simp
  next
    case (tilt_index env1)
    from tilt_index(1,2) show ?thesis by (auto simp: apply_action_def split: if_splits)
  next
    case (pan_index env1 tilt)
    from pan_index(1,2) show ?thesis by (auto simp: apply_action_def split: if_splits)
  next
    case (no_pan_stats env1 tilt pan label)
    from no_pan_stats(1,6) show ?thesis by (auto simp: apply_action_def split: if_splits)
  next
    case (no_tilt_stats env1 tilt pan label)
    from no_tilt_stats(1,7) show ?thesis by (auto simp: apply_action_def split: if_splits)
  next
    case (missing env1 tilt pan label)
    from missing(1,8) show ?thesis by (auto simp: apply_action_def split: if_splits)
  next
    case (returns env1 tilt pan label obs robs)
    from returns(1,8) show ?thesis by (auto simp: apply_action_def split: if_splits)
  qed
  then show "current_tilt (snd (step env a)) =
     (if a = 1 then max 0 (current_tilt env - 1)
      else if a = 2 then min (int (length tilts) - 1) (current_tilt env + 1)
      else current_tilt env)" "current_pan (snd (step env a)) =
     (if a = 3 then max 0 (current_pan env - 1)
      else if a = 4 then min (int (length pans) - 1) (current_pan env + 1)
      else current_pan env)" by simp_all
qed

lemma run_replicate_fixed:
  assumes "current_tilt (snd (step env a)) = current_tilt env"
    "current_pan (snd (step env a)) = current_pan env"
  shows "current_tilt (run env (replicate n (Step a))) = current_tilt env \<and>
    current_pan (run env (replicate n (Step a))) = current_pan env"
  using assms
proof (induction n arbitrary: env)
  case 0
  then show ?case by simp
next
  case (Suc n)
  have "current_tilt (snd (step (snd (step env a)) a)) = current_tilt (snd (step env a))"
    "current_pan (snd (step (snd (step env a)) a)) = current_pan (snd (step env a))"
    using Suc.prems by (auto simp add: step_indices split: if_splits)
  from Suc.IH [OF this] Suc.prems show ?case by simp
qed


text \<open>
  Claim C3. After a reset (with any values the generator can draw) and any sequence of
  calls of \<open>step\<close>, returning or raising, the orientation indices are inside the
  grid: \<open>0 \<le> current_tilt \<le> len(tilts) - 1\<close> and \<open>0 \<le> current_pan \<le> len(pans) - 1\<close>;
  every single call of \<open>step\<close> keeps them there. At a boundary the action that pushes
  outwards leaves both indices unchanged, however often it is repeated: action 1 at
  tilt index 0, action 2 at the last tilt index, action 3 at pan index 0, action 4 at the
  last pan index.
\<close>

theorem indices_clamped:
  "(reset_draws env d \<longrightarrow> index_ok (run (snd (reset d env)) (map Step acts))) \<and>
   (index_ok env \<longrightarrow> index_ok (snd (step env a))) \<and>
   (current_tilt env = 0 \<longrightarrow>
      current_tilt (run env (replicate n (Step 1))) = 0 \<and>
      current_pan (run env (replicate n (Step 1))) = current_pan env) \<and>
   (current_tilt env = int (length tilts) - 1 \<longrightarrow>
      current_tilt (run env (replicate n (Step 2))) = int (length tilts) - 1 \<and>
      current_pan (run env (replicate n (Step 2))) = current_pan env) \<and>
   (current_pan env = 0 \<longrightarrow>
      current_tilt (run env (replicate n (Step 3))) = current_tilt env \<and>
      current_pan (run env (replicate n (Step 3))) = 0) \<and>
   (current_pan env = int (length pans) - 1 \<longrightarrow>
      current_tilt (run env (replicate n (Step 4))) = current_tilt env \<and>
      current_pan (run env (replicate n (Step 4))) = int (length pans) - 1)"
proof (intro conjI impI)
  assume "reset_draws env d"
  then show "index_ok (run (snd (reset d env)) (map Step acts))"
    by (intro run_steps_index_ok reset_index_ok)
next
  assume "index_ok env"
  then show "index_ok (snd (step env a))" by (rule step_index_ok)
next
  assume h: "current_tilt env = 0"
  then have "current_tilt (snd (step env 1)) = current_tilt env"
    "current_pan (snd (step env 1)) = current_pan env"
    by (simp_all add: step_indices)
  from run_replicate_fixed [OF this, of n] h
  show "current_tilt (run env (replicate n (Step 1))) = 0"
    "current_pan (run env (replicate n (Step 1))) = current_pan env" by simp_all
next
  assume h: "current_tilt env = int (length tilts) - 1"
  then have "current_tilt (snd (step env 2)) = current_tilt env"
    "current_pan (snd (step env 2)) = current_pan env"
    by (simp_all add: step_indices)
  from run_replicate_fixed [OF this, of n] h
  show "current_tilt (run env (replicate n (Step 2))) = int (length tilts) - 1"
    "current_pan (run env (replicate n (Step 2))) = current_pan env" by simp_all
next
  assume h: "current_pan env = 0"
  then have "current_tilt (snd (step env 3)) = current_tilt env"
    "current_pan (snd (step env 3)) = current_pan env"
    by (simp_all add: step_indices)
  from run_replicate_fixed [OF this, of n] h
  show "current_tilt (run env (replicate n (Step 3))) = current_tilt env"
    "current_pan (run env (replicate n (Step 3))) = 0" by simp_all
next
  assume h: "current_pan env = int (length pans) - 1"
  then have "current_tilt (snd (step env 4)) = current_tilt env"
    "current_pan (snd (step env 4)) = current_pan env"
    by (simp_all add: step_indices)
  from run_replicate_fixed [OF this, of n] h
  show "current_tilt (run env (replicate n (Step 4))) = current_tilt env"
    "current_pan (run env (replicate n (Step 4))) = int (length pans) - 1" by simp_all
qed

lemma corner_facts:
  "reset_draws fresh_env corner_draws" "current_tilt corner_env = 0"
  "current_pan corner_env = int (length pans) - 1" "index_ok corner_env"
  by (simp_all add: corner_env_def corner_draws_def reset_draws_def person_drawn_def
      randint_def index_ok_def demo_defs)

lemma far_corner_facts:
  "current_tilt far_corner_env = int (length tilts) - 1" "current_pan far_corner_env = 0"
  by (simp_all add: far_corner_env_def far_corner_draws_def demo_defs)

theorem indices_clamped_witness:
  "reset_draws fresh_env corner_draws \<and>
   index_ok (run corner_env (map Step [1, 4, 4, 2, 3])) \<and>
   index_ok corner_env \<and> index_ok (snd (step corner_env 1)) \<and>
   current_tilt corner_env = 0 \<and>
   current_tilt (run corner_env (replicate 3 (Step 1))) = 0 \<and>
   current_pan corner_env = int (length pans) - 1 \<and>
   current_pan (run corner_env (replicate 3 (Step 4))) = int (length pans) - 1 \<and>
   current_tilt far_corner_env = int (length tilts) - 1 \<and>
   current_tilt (run far_corner_env (replicate 3 (Step 2))) = int (length tilts) - 1 \<and>
   current_pan far_corner_env = 0 \<and>
   current_pan (run far_corner_env (replicate 3 (Step 3))) = 0"
  using indices_clamped [of fresh_env corner_draws "[1, 4, 4, 2, 3]" 1 3]
    indices_clamped [of corner_env corner_draws "[]" 1 3]
    indices_clamped [of far_corner_env corner_draws "[]" 1 3]
    corner_facts far_corner_facts
  by (simp add: corner_env_def)

subsection \<open>The statistics sequences\<close>

text \<open>
  What each call does to the four statistics sequences: \<open>step\<close> never changes the
  initial sequences nor the length of the final ones; when it returns it has replaced
  the last entry of each final sequence by the current angle. \<open>reset\<close> appends the
  drawn angles to all four when it returns and leaves all four alone when it raises.
\<close>

lemma step_stats_frame:
  "init_pan_error (snd (step env a)) = init_pan_error env \<and>
   init_tilt_error (snd (step env a)) = init_tilt_error env \<and>
   length (final_pan_error (snd (step env a))) = length (final_pan_error env) \<and>
   length (final_tilt_error (snd (step env a))) = length (final_tilt_error env)"
proof (cases rule: step_cases [of a env])
  case bad_action
  then show ?thesis by simp
next
  case (tilt_index env1)
  from tilt_index(2) apply_action_fields [OF tilt_index(1)] show ?thesis by simp
next
  case (pan_index env1 tilt)
  from pan_index(2) apply_action_fields [OF pan_index(1)] show ?thesis by simp
next
  case (no_pan_stats env1 tilt pan label)
  from no_pan_stats(6) apply_action_fields [OF no_pan_stats(1)] show ?thesis by simp
next
  case (no_tilt_stats env1 tilt pan label)
  from no_tilt_stats(5,7) apply_action_fields [OF no_tilt_stats(1)] show ?thesis by simp
next
  case (missing env1 tilt pan label)
  from missing(5,6,8) apply_action_fields [OF missing(1)] show ?thesis by simp
next
  case (returns env1 tilt pan label obs robs)
  from returns(5,6,8) apply_action_fields [OF returns(1)] show ?thesis by simp
qed

lemma step_returns_stats:
  assumes "returns env (Step a)"
  shows "final_pan_error env \<noteq> []" "final_tilt_error env \<noteq> []"
    "\<exists>pan. py_index pans (current_pan (snd (step env a))) = Inr pan \<and>
       final_pan_error (snd (step env a)) = butlast (final_pan_error env) @ [pan]"
    "\<exists>tilt. py_index tilts (current_tilt (snd (step env a))) = Inr tilt \<and>
       final_tilt_error (snd (step env a)) = butlast (final_tilt_error env) @ [tilt]"
proof -
  from assms obtain out where o: "fst (step env a) = Inr out"
    by (cases "fst (step env a)") simp_all
  from o show "final_pan_error env \<noteq> []" "final_tilt_error env \<noteq> []"
    by (auto elim: step_returnsE)
  from o show "\<exists>pan. py_index pans (current_pan (snd (step env a))) = Inr pan \<and>
       final_pan_error (snd (step env a)) = butlast (final_pan_error env) @ [pan]"
    by (rule step_returnsE) simp
  from o show "\<exists>tilt. py_index tilts (current_tilt (snd (step env a))) = Inr tilt \<and>
       final_tilt_error (snd (step env a)) = butlast (final_tilt_error env) @ [tilt]"
    by (rule step_returnsE) simp
qed

lemma reset_raises_stats:
  assumes "\<not> returns env (Reset d)"
  shows "init_pan_error (snd (reset d env)) = init_pan_error env"
    "init_tilt_error (snd (reset d env)) = init_tilt_error env"
    "final_pan_error (snd (reset d env)) = final_pan_error env"
    "final_tilt_error (snd (reset d env)) = final_tilt_error env"
  using assms by (cases rule: reset_cases [of d env]; simp)+

lemma reset_returns_stats:
  assumes "returns env (Reset d)"
  shows "\<exists>tilt pan. py_index tilts (current_tilt (snd (reset d env))) = Inr tilt \<and>
     py_index pans (current_pan (snd (reset d env))) = Inr pan \<and>
     init_pan_error (snd (reset d env)) = init_pan_error env @ [pan] \<and>
     init_tilt_error (snd (reset d env)) = init_tilt_error env @ [tilt] \<and>
     final_pan_error (snd (reset d env)) = final_pan_error env @ [pan] \<and>
     final_tilt_error (snd (reset d env)) = final_tilt_error env @ [tilt]"
  using assms by (cases rule: reset_cases [of d env]) simp_all

lemma run_append: "run env (cs @ ds) = run (run env cs) ds"
  by (induction cs arbitrary: env) simp_all

lemma all_return_append:
  "all_return env (cs @ ds) = (all_return env cs \<and> all_return (run env cs) ds)"
  by (induction cs arbitrary: env) simp_all

lemma resets_simps [simp]:
  "resets [] = 0" "resets (Reset d # cs) = Suc (resets cs)" "resets (Step a # cs) = resets cs"
  "resets (cs @ ds) = resets cs + resets ds"
  by (simp_all add: resets_def)

subsection \<open>step before the first reset\<close>

lemma init_step_index_error:
  assumes "a \<in> {0, 1, 2, 3, 4}"
  shows "fst (step (init data tst iact p) a) = Inl IndexError"
proof (cases rule: step_cases [of a "init data tst iact p"])
  case bad_action
  with assms show ?thesis by simp
next
  case (tilt_index env1)
  then show ?thesis by simp
next
  case (pan_index env1 tilt)
  then show ?thesis by simp
next
  case (no_pan_stats env1 tilt pan label)
  from no_pan_stats(6) show ?thesis by simp
next
  case (no_tilt_stats env1 tilt pan label)
  from no_tilt_stats(7) show ?thesis by simp
next
  case (missing env1 tilt pan label)
  from missing(5) show ?thesis by (simp add: init_def)
next
  case (returns env1 tilt pan label obs robs)
  from returns(5) show ?thesis by (simp add: init_def)
qed

lemma stats_empty_unless_reset:
  assumes "final_pan_error env = []" "final_pan_error (run env calls) \<noteq> []"
  shows "\<exists>pre d rest. calls = pre @ Reset d # rest \<and> returns (run env pre) (Reset d)"
  using assms
proof (induction calls arbitrary: env)
  case Nil
  then show ?case by simp
next
  case (Cons c cs)
  show ?case
  proof (cases "is_reset c \<and> returns env c")
    case True
    then obtain d where "c = Reset d" by (cases c) simp_all
    with True have "c # cs = [] @ Reset d # cs \<and> returns (run env []) (Reset d)" by simp
    then show ?thesis by blast
  next
    case False
    have "final_pan_error (post env c) = []"
    proof (cases c)
      case (Reset d)
      with False have "\<not> returns env (Reset d)" by simp
      from reset_raises_stats(3) [OF this] Cons.prems(1) Reset show ?thesis by simp
    next
      case (Step a)
      with step_stats_frame [of env a] Cons.prems(1) show ?thesis by simp
    qed
    moreover from Cons.prems(2) have "final_pan_error (run (post env c) cs) \<noteq> []" by simp
    ultimately obtain pre d rest where
      "cs = pre @ Reset d # rest" "returns (run (post env c) pre) (Reset d)"
      using Cons.IH by blast
    then have "c # cs = (c # pre) @ Reset d # rest \<and> returns (run env (c # pre)) (Reset d)"
      by simp
    then show ?thesis by blast
  qed
qed

text \<open>
  Claim C9. On a freshly constructed environment a call of \<open>step\<close> with an action of
  \<open>{0, 1, 2, 3, 4}\<close> raises IndexError (the assignment of line 141 to the last element
  of the empty \<open>final_pan_error\<close>). A call of \<open>step\<close> returns only when both final
  sequences are non-empty; so in any history from the constructor (whether or not the
  caller goes on after exceptions) a call of \<open>step\<close> returns only after some call of
  \<open>reset\<close> has returned.
\<close>

theorem step_before_reset_fails:
  "(a \<in> {0, 1, 2, 3, 4} \<longrightarrow> fst (step (init data tst iact p) a) = Inl IndexError) \<and>
   (returns env (Step a) \<longrightarrow> final_pan_error env \<noteq> [] \<and> final_tilt_error env \<noteq> []) \<and>
   (returns (run (init data tst iact p) calls) (Step a) \<longrightarrow>
      (\<exists>pre d rest. calls = pre @ Reset d # rest \<and>
         returns (run (init data tst iact p) pre) (Reset d)))"
proof (intro conjI impI)
  assume "a \<in> {0, 1, 2, 3, 4}"
  then show "fst (step (init data tst iact p) a) = Inl IndexError"
    by (rule init_step_index_error)
next
  assume "returns env (Step a)"
  then show "final_pan_error env \<noteq> []" "final_tilt_error env \<noteq> []"
    by (rule step_returns_stats)+
next
  assume "returns (run (init data tst iact p) calls) (Step a)"
  then have "final_pan_error (run (init data tst iact p) calls) \<noteq> []"
    by (rule step_returns_stats)
  moreover have "final_pan_error (init data tst iact p) = []" by (simp add: init_def)
  ultimately show "\<exists>pre d rest. calls = pre @ Reset d # rest \<and>
         returns (run (init data tst iact p) pre) (Reset d)"
    by (rule stats_empty_unless_reset [rotated])
qed

lemma centre_returns: "returns fresh_env (Reset centre_draws)" "returns centre_env (Step 4)"
  using centre_step_left by (simp_all add: demo_defs)

theorem step_before_reset_fails_witness:
  "(4::int) \<in> {0, 1, 2, 3, 4} \<and> fst (step (init demo_data False False 0) 4) = Inl IndexError \<and>
   returns (run (init demo_data False False 0) [Step 4, Reset centre_draws]) (Step 4) \<and>
   final_pan_error (run (init demo_data False False 0) [Step 4, Reset centre_draws]) \<noteq> [] \<and>
   (\<exists>pre d rest. [Step 4, Reset centre_draws] = pre @ Reset d # rest \<and>
      returns (run (init demo_data False False 0) pre) (Reset d))"
proof -
  have r: "returns (run (init demo_data False False 0) [Step 4, Reset centre_draws]) (Step 4)"
    by (simp add: demo_defs step_defs)
  from step_before_reset_fails
    [of 4 demo_data False False 0 "run (init demo_data False False 0) [Step 4, Reset centre_draws]"
      "[Step 4, Reset centre_draws]"] r
  show ?thesis by simp
qed

subsection \<open>The statistics over a history\<close>

text \<open>
  Over a history whose calls all return: every sequence grows by one entry per reset;
  the last final entries are the current angles after any call; the final entries
  before the last are never touched again, and after the next reset neither is the
  last; the initial sequences are append-only.
\<close>

lemma stats_lengths:
  "all_return env cs \<Longrightarrow>
     length (init_pan_error (run env cs)) = length (init_pan_error env) + resets cs \<and>
     length (init_tilt_error (run env cs)) = length (init_tilt_error env) + resets cs \<and>
     length (final_pan_error (run env cs)) = length (final_pan_error env) + resets cs \<and>
     length (final_tilt_error (run env cs)) = length (final_tilt_error env) + resets cs"
proof (induction cs arbitrary: env)
  case Nil
  then show ?case by simp
next
  case (Cons c cs)
  from Cons.prems have r: "returns env c" and rest: "all_return (post env c) cs" by simp_all
  note ih = Cons.IH [OF rest]
  show ?case
  proof (cases c)
    case (Reset d)
    with r have "returns env (Reset d)" by simp
    from reset_returns_stats [OF this] ih Reset show ?thesis by auto
  next
    case (Step a)
    with step_stats_frame [of env a] ih show ?thesis by simp
  qed
qed

lemma last_final_angle:
  assumes "returns env c"
  shows "final_pan_error (post env c) \<noteq> [] \<and> final_tilt_error (post env c) \<noteq> [] \<and>
    py_index pans (current_pan (post env c)) = Inr (last (final_pan_error (post env c))) \<and>
    py_index tilts (current_tilt (post env c)) = Inr (last (final_tilt_error (post env c)))"
proof (cases c)
  case (Reset d)
  with assms have "returns env (Reset d)" by simp
  from reset_returns_stats [OF this] Reset show ?thesis by auto
next
  case (Step a)
  with assms have "returns env (Step a)" by simp
  from step_returns_stats(3,4) [OF this] Step show ?thesis by auto
qed

lemma final_prefix_butlast:
  "all_return env cs \<Longrightarrow>
     prefix (butlast (final_pan_error env)) (final_pan_error (run env cs)) \<and>
     prefix (butlast (final_tilt_error env)) (final_tilt_error (run env cs))"
proof (induction cs arbitrary: env)
  case Nil
  then show ?case by (simp add: prefixeq_butlast)
next
  case (Cons c cs)
  from Cons.prems have r: "returns env c" and rest: "all_return (post env c) cs" by simp_all
  note ih = Cons.IH [OF rest]
  show ?case
  proof (cases c)
    case (Reset d)
    with r have "returns env (Reset d)" by simp
    from reset_returns_stats [OF this] Reset
    have "butlast (final_pan_error (post env c)) = final_pan_error env"
      "butlast (final_tilt_error (post env c)) = final_tilt_error env" by auto
    with ih have "prefix (final_pan_error env) (final_pan_error (run env (c # cs)))"
      "prefix (final_tilt_error env) (final_tilt_error (run env (c # cs)))" by simp_all
    then show ?thesis
      by (meson prefix_order.trans prefixeq_butlast)
  next
    case (Step a)
    with r have "returns env (Step a)" by simp
    from step_returns_stats(3,4) [OF this] Step
    have "butlast (final_pan_error (post env c)) = butlast (final_pan_error env)"
      "butlast (final_tilt_error (post env c)) = butlast (final_tilt_error env)" by auto
    with ih show ?thesis by simp
  qed
qed

lemma final_frozen:
  assumes "all_return env cs" "episode_over cs"
  shows "prefix (final_pan_error env) (final_pan_error (run env cs)) \<and>
     prefix (final_tilt_error env) (final_tilt_error (run env cs))"
proof (cases cs)
  case Nil
  then show ?thesis by simp
next
  case (Cons c cs')
  with assms(2) obtain d where c: "c = Reset d" by (cases c) simp_all
  from assms(1) Cons c have r: "returns env (Reset d)"
    and rest: "all_return (post env (Reset d)) cs'" by simp_all
  from reset_returns_stats [OF r]
  have "butlast (final_pan_error (post env (Reset d))) = final_pan_error env"
    "butlast (final_tilt_error (post env (Reset d))) = final_tilt_error env" by auto
  with final_prefix_butlast [OF rest] Cons c show ?thesis by simp
qed

lemma init_append_only:
  "all_return env cs \<Longrightarrow>
     prefix (init_pan_error env) (init_pan_error (run env cs)) \<and>
     prefix (init_tilt_error env) (init_tilt_error (run env cs))"
proof (induction cs arbitrary: env)
  case Nil
  then show ?case by simp
next
  case (Cons c cs)
  from Cons.prems have r: "returns env c" and rest: "all_return (post env c) cs" by simp_all
  note ih = Cons.IH [OF rest]
  show ?case
  proof (cases c)
    case (Reset d)
    with r have "returns env (Reset d)" by simp
    from reset_returns_stats [OF this] Reset
    have "prefix (init_pan_error env) (init_pan_error (post env c))"
      "prefix (init_tilt_error env) (init_tilt_error (post env c))" by auto
    with ih show ?thesis
      by (simp, meson prefix_order.trans)
  next
    case (Step a)
    with step_stats_frame [of env a] ih show ?thesis by simp
  qed
qed

lemma prefix_nth: "prefix xs ys \<Longrightarrow> i < length xs \<Longrightarrow> ys ! i = xs ! i"
  by (auto simp: prefix_def nth_append)

lemma step_overwrites_last:
  assumes "returns env (Step a)"
  shows "init_pan_error (post env (Step a)) = init_pan_error env \<and>
    init_tilt_error (post env (Step a)) = init_tilt_error env \<and>
    length (final_pan_error (post env (Step a))) = length (final_pan_error env) \<and>
    length (final_tilt_error (post env (Step a))) = length (final_tilt_error env) \<and>
    butlast (final_pan_error (post env (Step a))) = butlast (final_pan_error env) \<and>
    butlast (final_tilt_error (post env (Step a))) = butlast (final_tilt_error env)"
  using step_stats_frame [of env a] step_returns_stats(3,4) [OF assms] by auto


text \<open>
  Claim C8. Take a history from the constructor whose calls all return, split anywhere
  into \<open>pre\<close> and \<open>rest\<close>; \<open>E\<close> is the environment at its end, \<open>M\<close> the one after
  \<open>pre\<close>, and \<open>n\<close> the number of resets in \<open>pre\<close>. Then each of the four statistics
  sequences of \<open>E\<close> has as many entries as the history has resets. The \<open>n\<close>-th initial
  entries are those of \<open>M\<close>. When episode \<open>n\<close> is over after \<open>pre\<close> (the history ends
  there or goes on with a reset), the \<open>n\<close>-th final entries of \<open>E\<close> are the angles at the
  orientation of \<open>M\<close>, that is after the last call of the episode; and when that last
  call is the reset itself (no step in the episode) they are the \<open>n\<close>-th initial entries.
  A returning step leaves the initial sequences, the lengths of the final sequences and
  all their entries but the last as they were.
\<close>

theorem statistics_frozen:
  assumes "all_return (init data tst iact p) (pre @ rest)"
  shows
    "(let E = run (init data tst iact p) (pre @ rest); M = run (init data tst iact p) pre;
          n = resets pre
      in length (init_pan_error E) = resets (pre @ rest) \<and>
         length (init_tilt_error E) = resets (pre @ rest) \<and>
         length (final_pan_error E) = resets (pre @ rest) \<and>
         length (final_tilt_error E) = resets (pre @ rest) \<and>
         (0 < n \<longrightarrow>
            init_pan_error E ! (n - 1) = init_pan_error M ! (n - 1) \<and>
            init_tilt_error E ! (n - 1) = init_tilt_error M ! (n - 1)) \<and>
         (0 < n \<and> episode_over rest \<longrightarrow>
            py_index pans (current_pan M) = Inr (final_pan_error E ! (n - 1)) \<and>
            py_index tilts (current_tilt M) = Inr (final_tilt_error E ! (n - 1))) \<and>
         ((\<exists>pre' d. pre = pre' @ [Reset d]) \<and> episode_over rest \<longrightarrow>
            final_pan_error E ! (n - 1) = init_pan_error E ! (n - 1) \<and>
            final_tilt_error E ! (n - 1) = init_tilt_error E ! (n - 1))) \<and>
     (returns env (Step a) \<longrightarrow>
        init_pan_error (post env (Step a)) = init_pan_error env \<and>
        init_tilt_error (post env (Step a)) = init_tilt_error env \<and>
        length (final_pan_error (post env (Step a))) = length (final_pan_error env) \<and>
        length (final_tilt_error (post env (Step a))) = length (final_tilt_error env) \<and>
        butlast (final_pan_error (post env (Step a))) = butlast (final_pan_error env) \<and>
        butlast (final_tilt_error (post env (Step a))) = butlast (final_tilt_error env))"
proof -
  define e0 where "e0 = init data tst iact p"
  define M where "M = run e0 pre"
  define E where "E = run e0 (pre @ rest)"
  define n where "n = resets pre"
  have e0: "init_pan_error e0 = []" "init_tilt_error e0 = []"
    "final_pan_error e0 = []" "final_tilt_error e0 = []"
    by (simp_all add: e0_def init_def)
  from assms have all: "all_return e0 (pre @ rest)" by (simp add: e0_def)
  then have ap: "all_return e0 pre" and ar: "all_return M rest"
    by (simp_all add: all_return_append M_def)
  have EM: "E = run M rest" by (simp add: E_def M_def run_append)
  from stats_lengths [OF all] e0
  have lenE: "length (init_pan_error E) = resets (pre @ rest)"
    "length (init_tilt_error E) = resets (pre @ rest)"
    "length (final_pan_error E) = resets (pre @ rest)"
    "length (final_tilt_error E) = resets (pre @ rest)"
    by (simp_all add: E_def)
  from stats_lengths [OF ap] e0
  have lenM: "length (init_pan_error M) = n" "length (init_tilt_error M) = n"
    "length (final_pan_error M) = n" "length (final_tilt_error M) = n"
    by (simp_all add: M_def n_def)
  have ini: "init_pan_error E ! (n - 1) = init_pan_error M ! (n - 1) \<and>
      init_tilt_error E ! (n - 1) = init_tilt_error M ! (n - 1)" if "0 < n"
    using init_append_only [OF ar] lenM that by (simp add: EM prefix_nth)
  have fin: "final_pan_error E ! (n - 1) = last (final_pan_error M) \<and>
      final_tilt_error E ! (n - 1) = last (final_tilt_error M)"
    if "0 < n" "episode_over rest"
  proof -
    from that(1) lenM have ne: "final_pan_error M \<noteq> []" "final_tilt_error M \<noteq> []" by auto
    from final_frozen [OF ar that(2)] lenM that(1)
    have "final_pan_error E ! (n - 1) = final_pan_error M ! (n - 1)"
      "final_tilt_error E ! (n - 1) = final_tilt_error M ! (n - 1)"
      by (simp_all add: EM prefix_nth)
    with ne lenM show ?thesis by (simp add: last_conv_nth)
  qed
  have ang: "py_index pans (current_pan M) = Inr (final_pan_error E ! (n - 1)) \<and>
      py_index tilts (current_tilt M) = Inr (final_tilt_error E ! (n - 1))"
    if "0 < n" "episode_over rest"
  proof -
    from that(1) have "pre \<noteq> []" by (auto simp: n_def)
    then obtain pre' c where pre: "pre = pre' @ [c]" by (cases pre rule: rev_cases) auto
    with ap have "returns (run e0 pre') c" by (simp add: all_return_append)
    from last_final_angle [OF this] pre
    have "py_index pans (current_pan M) = Inr (last (final_pan_error M))"
      "py_index tilts (current_tilt M) = Inr (last (final_tilt_error M))"
      by (simp_all add: M_def run_append)
    with fin [OF that] show ?thesis by simp
  qed
  have same: "final_pan_error E ! (n - 1) = init_pan_error E ! (n - 1) \<and>
      final_tilt_error E ! (n - 1) = init_tilt_error E ! (n - 1)"
    if "\<exists>pre' d. pre = pre' @ [Reset d]" "episode_over rest"
  proof -
    from that(1) obtain pre' d where pre: "pre = pre' @ [Reset d]" by blast
    then have pos: "0 < n" by (simp add: n_def)
    from pre ap have "returns (run e0 pre') (Reset d)" by (simp add: all_return_append)
    from reset_returns_stats [OF this] pre
    have "last (final_pan_error M) = last (init_pan_error M)"
      "last (final_tilt_error M) = last (init_tilt_error M)"
      by (auto simp: M_def run_append)
    moreover from pos lenM have "init_pan_error M \<noteq> []" "init_tilt_error M \<noteq> []" by auto
    ultimately show ?thesis
      using fin [OF pos that(2)] ini [OF pos] lenM by (simp add: last_conv_nth)
  qed
  show ?thesis
    unfolding Let_def using lenE ini ang same step_overwrites_last [of env a]
    by (simp only: e0_def [symmetric] M_def [symmetric] E_def [symmetric] n_def [symmetric])
      blast
qed


lemmas run_defs = episode_one_def episode_two_def corner_draws_def demo_defs step_defs

lemma episodes_run:
  "all_return fresh_env (episode_one @ episode_two)"
  "init_pan_error (run fresh_env (episode_one @ episode_two)) = [0, 90]"
  "init_tilt_error (run fresh_env (episode_one @ episode_two)) = [0, - 60]"
  "final_pan_error (run fresh_env (episode_one @ episode_two)) = [15, 90]"
  "final_tilt_error (run fresh_env (episode_one @ episode_two)) = [15, - 60]"
  "current_pan (run fresh_env episode_one) = 7"
  "current_tilt (run fresh_env episode_one) = 4"
  by (simp_all add: run_defs)

lemma episodes_run_reset:
  "all_return fresh_env ((episode_one @ [Reset corner_draws]) @ [])"
  by (simp add: run_defs)

theorem statistics_frozen_witness:
  "all_return (init demo_data False False 0) (episode_one @ episode_two) \<and>
   0 < resets episode_one \<and> episode_over episode_two \<and> returns centre_env (Step 4) \<and>
   length (final_pan_error (run (init demo_data False False 0) (episode_one @ episode_two))) = 2 \<and>
   py_index pans (current_pan (run (init demo_data False False 0) episode_one)) =
     Inr (final_pan_error (run (init demo_data False False 0) (episode_one @ episode_two)) ! 0) \<and>
   butlast (final_pan_error (post centre_env (Step 4))) = butlast (final_pan_error centre_env) \<and>
   all_return (init demo_data False False 0) ((episode_one @ [Reset corner_draws]) @ []) \<and>
   (\<exists>pre' d. episode_one @ [Reset corner_draws] = pre' @ [Reset d]) \<and> episode_over [] \<and>
   final_pan_error (run (init demo_data False False 0) ((episode_one @ [Reset corner_draws]) @ [])) ! 1 =
     init_pan_error (run (init demo_data False False 0) ((episode_one @ [Reset corner_draws]) @ [])) ! 1"
proof -
  have h: "all_return (init demo_data False False 0) (episode_one @ episode_two)"
    using episodes_run(1) by (simp add: fresh_env_def)
  have h2: "all_return (init demo_data False False 0) ((episode_one @ [Reset corner_draws]) @ [])"
    using episodes_run_reset by (simp add: fresh_env_def)
  have r: "0 < resets episode_one" "episode_over episode_two" "resets episode_two = 1"
    "resets episode_one = 1"
    by (simp_all add: episode_one_def episode_two_def)
  have e: "\<exists>pre' d. episode_one @ [Reset corner_draws] = pre' @ [Reset d]" by blast
  from statistics_frozen [OF h, of centre_env 4] r centre_returns(2) h
  have 1: "length (final_pan_error (run (init demo_data False False 0) (episode_one @ episode_two))) = 2 \<and>
   py_index pans (current_pan (run (init demo_data False False 0) episode_one)) =
     Inr (final_pan_error (run (init demo_data False False 0) (episode_one @ episode_two)) ! 0) \<and>
   butlast (final_pan_error (post centre_env (Step 4))) = butlast (final_pan_error centre_env)"
    by (simp add: Let_def)
  from statistics_frozen [OF h2, of centre_env 4] r e
  have 2: "final_pan_error (run (init demo_data False False 0) ((episode_one @ [Reset corner_draws]) @ [])) ! 1 =
     init_pan_error (run (init demo_data False False 0) ((episode_one @ [Reset corner_draws]) @ [])) ! 1"
    by (simp add: Let_def)
  from h h2 r e 1 2 centre_returns(2) show ?thesis by simp
qed

subsection \<open>Error and reward\<close>

text \<open>
  The divisors of line 148 are the largest absolute values of the grids, 60 and 90; an
  angle read from a grid gives a squared ratio between 0 and 1.
\<close>

lemma np_max_Max: "xs \<noteq> [] \<Longrightarrow> np_max xs = Inr (Max (set xs))"
  by (cases xs) (simp_all flip: Max.set_eq_fold)

lemma max_abs_grid:
  "Max (abs ` set tilts) = 60" "Max (abs ` set pans) = 90"
proof -
  have "np_max (map abs tilts) = Inr (Max (set (map abs tilts)))"
    by (rule np_max_Max) (simp add: tilts_def)
  with max_abs_tilts show "Max (abs ` set tilts) = 60" by simp
  have "np_max (map abs pans) = Inr (Max (set (map abs pans)))"
    by (rule np_max_Max) (simp add: pans_def)
  with max_abs_pans show "Max (abs ` set pans) = 90" by simp
qed

lemma py_index_mem: "py_index xs i = Inr v \<Longrightarrow> v \<in> set xs"
  by (auto simp: py_index_def Let_def split: if_splits)

lemma tilt_ratio: "t \<in> set tilts \<Longrightarrow> 0 \<le> (of_int t / 60 :: rat)\<^sup>2 \<and> (of_int t / 60 :: rat)\<^sup>2 \<le> 1"
  by (auto simp: tilts_def power2_eq_square)

lemma pan_ratio: "p \<in> set pans \<Longrightarrow> 0 \<le> (of_int p / 90 :: rat)\<^sup>2 \<and> (of_int p / 90 :: rat)\<^sup>2 \<le> 1"
  by (auto simp: pans_def power2_eq_square)

lemma calc_error_range:
  assumes "t \<in> set tilts" "p \<in> set pans"
  shows "0 \<le> calc_error t p 60 90 \<and> calc_error t p 60 90 \<le> 2"
  using tilt_ratio [OF assms(1)] pan_ratio [OF assms(2)] by (simp add: calc_error_def)

lemma base_reward_range:
  assumes "0 \<le> err" "err \<le> 2"
  shows "0 \<le> base_reward err \<and> base_reward err \<le> 1"
  using assms by (simp add: base_reward_def Let_def field_simps)

lemma base_reward_zero: "(2 - err) / 2 < 0.95 \<Longrightarrow> base_reward err = 0"
  by (simp add: base_reward_def Let_def)

lemma shaped_reward_bonus:
  "shaped_reward (mem @ [cur]) r =
     r + (if 3 \<le> length mem + 1
          then (if last mem > cur then 0.1 else if last mem < cur then - 0.15 else 0)
          else 0)"
proof (cases "mem = []")
  case True
  then show ?thesis by (simp add: shaped_reward_def)
next
  case False
  then have "(mem @ [cur]) ! (length mem - 1) = last mem"
    by (simp add: nth_append last_conv_nth)
  then show ?thesis by (simp add: shaped_reward_def)
qed

lemma step_reward:
  assumes "fst (step env a) = Inr out"
  shows "\<exists>tilt pan.
     py_index tilts (current_tilt (snd (step env a))) = Inr tilt \<and>
     py_index pans (current_pan (snd (step env a))) = Inr pan \<and>
     error_memory (snd (step env a)) = error_memory env @ [calc_error tilt pan 60 90] \<and>
     res_reward out =
       shaped_reward (error_memory env @ [calc_error tilt pan 60 90])
         (base_reward (calc_error tilt pan 60 90))"
  using assms by (rule step_returnsE) simp


lemma centre_memory:
  "error_memory centre_env = []" "error_memory (snd (step centre_env 4)) = [1 / 36]"
  by (simp_all add: demo_defs step_defs)

lemma drift_step_left:
  "fst (step drift_env 4) =
     Inr \<lparr>res_observation = [[(11, - 4, 9)]], res_reward = - 0.15,
          res_done = False, res_info = []\<rparr>"
  "error_memory drift_env = [1 / 36, 1 / 9]"
  "error_memory (snd (step drift_env 4)) = [1 / 36, 1 / 9, 1 / 4]"
  "current_tilt (snd (step drift_env 4)) = 3" "current_pan (snd (step drift_env 4)) = 9"
  by (simp_all add: drift_env_def demo_defs step_defs)

lemma drift_step_right:
  "fst (step drift_env 3) =
     Inr \<lparr>res_observation = [[(11, - 4, 9)]], res_reward = 37 / 45,
          res_done = False, res_info = []\<rparr>"
  "error_memory (snd (step drift_env 3)) = [1 / 36, 1 / 9, 1 / 36]"
  by (simp_all add: drift_env_def demo_defs step_defs)

text \<open>
  Claim C6. A call of \<open>step\<close> that returns has appended one value to the error memory:
  \<open>(tilt / max_abs_tilt)\<^sup>2 + (pan / max_abs_pan)\<^sup>2\<close>, where \<open>tilt\<close> and \<open>pan\<close> are the
  angles at the orientation the call leaves and the divisors are the largest absolute
  values of the two grids. The value lies between 0 and 2.
\<close>

theorem error_appended:
  assumes "fst (step env a) = Inr out"
  shows "\<exists>tilt pan.
     py_index tilts (current_tilt (snd (step env a))) = Inr tilt \<and>
     py_index pans (current_pan (snd (step env a))) = Inr pan \<and>
     error_memory (snd (step env a)) =
       error_memory env @
         [(of_int tilt / of_int (Max (abs ` set tilts)))\<^sup>2 +
          (of_int pan / of_int (Max (abs ` set pans)))\<^sup>2] \<and>
     0 \<le> last (error_memory (snd (step env a))) \<and>
     last (error_memory (snd (step env a))) \<le> 2"
proof -
  from step_reward [OF assms] obtain tilt pan where
    t: "py_index tilts (current_tilt (snd (step env a))) = Inr tilt" and
    p: "py_index pans (current_pan (snd (step env a))) = Inr pan" and
    m: "error_memory (snd (step env a)) = error_memory env @ [calc_error tilt pan 60 90]"
    by blast
  from calc_error_range [OF py_index_mem [OF t] py_index_mem [OF p]] m
  have "0 \<le> last (error_memory (snd (step env a)))"
    "last (error_memory (snd (step env a))) \<le> 2" by simp_all
  with t p m show ?thesis by (simp add: max_abs_grid calc_error_def)
qed

theorem error_appended_witness:
  "fst (step drift_env 4) =
     Inr \<lparr>res_observation = [[(11, - 4, 9)]], res_reward = - 0.15,
          res_done = False, res_info = []\<rparr> \<and>
   (\<exists>tilt pan.
     py_index tilts (current_tilt (snd (step drift_env 4))) = Inr tilt \<and>
     py_index pans (current_pan (snd (step drift_env 4))) = Inr pan \<and>
     error_memory (snd (step drift_env 4)) =
       error_memory drift_env @
         [(of_int tilt / of_int (Max (abs ` set tilts)))\<^sup>2 +
          (of_int pan / of_int (Max (abs ` set pans)))\<^sup>2] \<and>
     0 \<le> last (error_memory (snd (step drift_env 4))) \<and>
     last (error_memory (snd (step drift_env 4))) \<le> 2) \<and>
   error_memory (snd (step drift_env 4)) = [1 / 36, 1 / 9, 1 / 4]"
  using error_appended [OF drift_step_left(1)] drift_step_left(1,3) by simp

text \<open>
  Claim C1, as the code has it. The reward of a returning call of \<open>step\<close> lies between
  \<open>-0.15\<close> and \<open>1.15\<close>. When the raw reward \<open>(2 - error) / 2\<close> is below \<open>0.95\<close>, the
  reward before the bonus is 0, so the reward returned is the bonus alone: 0, \<open>0.1\<close> or
  \<open>-0.15\<close>; it is 0 on the first two steps of an episode.
\<close>

theorem reward_range:
  assumes "fst (step env a) = Inr out"
  shows "- 0.15 \<le> res_reward out \<and> res_reward out \<le> 1.15 \<and>
     ((2 - last (error_memory (snd (step env a)))) / 2 < 0.95 \<longrightarrow>
        base_reward (last (error_memory (snd (step env a)))) = 0 \<and>
        (res_reward out = 0 \<or> res_reward out = 0.1 \<or> res_reward out = - 0.15) \<and>
        (length (error_memory env) < 2 \<longrightarrow> res_reward out = 0))"
proof -
  from step_reward [OF assms] obtain tilt pan where
    t: "py_index tilts (current_tilt (snd (step env a))) = Inr tilt" and
    p: "py_index pans (current_pan (snd (step env a))) = Inr pan" and
    m: "error_memory (snd (step env a)) = error_memory env @ [calc_error tilt pan 60 90]" and
    r: "res_reward out =
       shaped_reward (error_memory env @ [calc_error tilt pan 60 90])
         (base_reward (calc_error tilt pan 60 90))"
    by blast
  define err where "err = calc_error tilt pan 60 90"
  from calc_error_range [OF py_index_mem [OF t] py_index_mem [OF p]]
  have "0 \<le> err" "err \<le> 2" by (simp_all add: err_def)
  from base_reward_range [OF this] have b: "0 \<le> base_reward err" "base_reward err \<le> 1"
    by simp_all
  from m have l: "last (error_memory (snd (step env a))) = err" by (simp add: err_def)
  from r have s: "res_reward out = base_reward err +
      (if 3 \<le> length (error_memory env) + 1
       then (if last (error_memory env) > err then 0.1
             else if last (error_memory env) < err then - 0.15 else 0)
       else 0)"
    by (simp only: shaped_reward_bonus err_def)
  from s b have "- 0.15 \<le> res_reward out" "res_reward out \<le> 1.15"
    by (simp_all split: if_splits)
  moreover have "res_reward out = 0 \<or> res_reward out = 0.1 \<or> res_reward out = - 0.15"
    "length (error_memory env) < 2 \<longrightarrow> res_reward out = 0"
    if "base_reward err = 0"
    using s that by (simp_all split: if_splits)
  ultimately show ?thesis using base_reward_zero [of err] l by simp
qed

theorem reward_range_witness:
  "fst (step drift_env 4) =
     Inr \<lparr>res_observation = [[(11, - 4, 9)]], res_reward = - 0.15,
          res_done = False, res_info = []\<rparr> \<and>
   (2 - last (error_memory (snd (step drift_env 4)))) / 2 < 0.95 \<and>
   base_reward (last (error_memory (snd (step drift_env 4)))) = 0 \<and>
   - 0.15 \<le> res_reward \<lparr>res_observation = [[(11, - 4, 9)]], res_reward = - 0.15,
          res_done = False, res_info = []\<rparr>"
  using reward_range [OF drift_step_left(1)] drift_step_left(1,3) by simp

text \<open>
  The claim as the specification states it (a reward never below 0, and exactly 0 below
  the threshold) fails on the third step of an episode that moves away from the centre:
  the raw reward is \<open>7/8\<close> and the reward returned is \<open>-0.15\<close>.
\<close>

theorem reward_negative_counterexample:
  "fst (step drift_env 4) =
     Inr \<lparr>res_observation = [[(11, - 4, 9)]], res_reward = - 0.15,
          res_done = False, res_info = []\<rparr> \<and>
   (2 - last (error_memory (snd (step drift_env 4)))) / 2 < 0.95 \<and>
   \<not> (0 \<le> res_reward \<lparr>res_observation = [[(11, - 4, 9)]], res_reward = - 0.15,
          res_done = False, res_info = []\<rparr>) \<and>
   res_reward \<lparr>res_observation = [[(11, - 4, 9)]], res_reward = - 0.15,
          res_done = False, res_info = []\<rparr> \<noteq> 0"
  using drift_step_left(1,3) by simp

text \<open>
  Claim C2. In a returning call of \<open>step\<close> the error memory grows by one entry, and the
  reward is the reward before the bonus plus: nothing when the memory then has fewer
  than 3 entries; otherwise \<open>0.1\<close> when the previous error is strictly greater than the
  current one, \<open>-0.15\<close> when it is strictly less, nothing when they are equal. \<open>reset\<close>
  empties the memory, so the first two steps of an episode get no bonus.
\<close>

theorem shaping_bonus:
  assumes "fst (step env a) = Inr out"
  shows "(let prev = last (error_memory env);
           cur = last (error_memory (snd (step env a)));
           n = length (error_memory (snd (step env a)))
       in n = length (error_memory env) + 1 \<and>
          res_reward out = base_reward cur +
            (if 3 \<le> n
             then (if prev > cur then 0.1 else if prev < cur then - 0.15 else 0)
             else 0) \<and>
          (n \<le> 2 \<longrightarrow> res_reward out = base_reward cur)) \<and>
     error_memory (snd (reset d env0)) = []"
proof -
  from step_reward [OF assms] obtain tilt pan where
    m: "error_memory (snd (step env a)) = error_memory env @ [calc_error tilt pan 60 90]" and
    r: "res_reward out =
       shaped_reward (error_memory env @ [calc_error tilt pan 60 90])
         (base_reward (calc_error tilt pan 60 90))"
    by blast
  have "error_memory (snd (reset d env0)) = []"
    by (cases rule: reset_cases [of d env0]) simp_all
  with m r show ?thesis
    by (simp add: shaped_reward_bonus Let_def)
qed

theorem shaping_bonus_witness:
  "fst (step drift_env 4) =
     Inr \<lparr>res_observation = [[(11, - 4, 9)]], res_reward = - 0.15,
          res_done = False, res_info = []\<rparr> \<and>
   fst (step drift_env 3) =
     Inr \<lparr>res_observation = [[(11, - 4, 9)]], res_reward = 37 / 45,
          res_done = False, res_info = []\<rparr> \<and>
   fst (step centre_env 4) =
     Inr \<lparr>res_observation = [[(11, - 4, 9)]], res_reward = 13 / 18,
          res_done = False, res_info = []\<rparr> \<and>
   length (error_memory (snd (step drift_env 4))) = 3 \<and>
   length (error_memory (snd (step centre_env 4))) = 1 \<and>
   (- 0.15 :: rat) = base_reward (1 / 4) + - 0.15 \<and>
   (37 / 45 :: rat) = base_reward (1 / 36) + 0.1 \<and>
   (13 / 18 :: rat) = base_reward (1 / 36)"
  using shaping_bonus [OF drift_step_left(1), of centre_draws fresh_env]
    shaping_bonus [OF drift_step_right(1), of centre_draws fresh_env]
    shaping_bonus [OF centre_step_left, of centre_draws fresh_env]
    drift_step_left drift_step_right centre_step_left centre_memory
  by (simp add: Let_def)

subsection \<open>The observation of reset\<close>

text \<open>
  What the two helpers of the lookup compute, in terms of the dataset and of the pixels;
  the person and the orientation \<open>reset\<close> leaves, in terms of the generator's outputs;
  and the result of \<open>reset\<close>, in terms of the entry under the key it leaves.
\<close>

lemma sub_mean_pixels:
  "sub_mean img mean_vector = map (map (\<lambda>(r, g, b). (r - 109, g - 114, b - 131))) img"
proof -
  have "sub_pixel mean_vector = (\<lambda>(r, g, b). (r - 109, g - 114, b - 131))"
    by (auto simp: fun_eq_iff sub_pixel_def mean_vector_def)
  then show ?thesis by (simp add: sub_mean_def)
qed

lemma lookup_found:
  "persons env p = Some tbl \<Longrightarrow> tbl k = Some v \<Longrightarrow> lookup (persons env) p k = Inr v"
  by (simp add: lookup_def)

lemma lookup_missing:
  "persons env p = None \<or> (persons env p = Some tbl \<and> tbl k = None) \<Longrightarrow>
     lookup (persons env) p k = Inl KeyError"
  by (auto simp: lookup_def)

lemma reset_drawn:
  "current_person (snd (reset d env)) =
     (if testing env then np_randint 20 30 (person_draw d) else np_randint 0 20 (person_draw d))"
  "current_tilt (snd (reset d env)) = np_randint 0 (int (length tilts)) (tilt_draw d)"
  "current_pan (snd (reset d env)) = np_randint 0 (int (length pans)) (pan_draw d)"
  by (cases rule: reset_cases [of d env]; simp)+

lemma reset_result:
  "fst (reset d env) =
     (case lookup (persons env) (current_person (snd (reset d env)))
             (tilts ! nat (current_tilt (snd (reset d env))),
              pans ! nat (current_pan (snd (reset d env)))) of
        Inl e \<Rightarrow> Inl e
      | Inr (img, rimg) \<Rightarrow> Inr (sub_mean img mean_vector))"
  "lookup (persons env) (current_person (snd (reset d env)))
             (tilts ! nat (current_tilt (snd (reset d env))),
              pans ! nat (current_pan (snd (reset d env)))) = Inr (img, rimg) \<Longrightarrow>
   observation (snd (reset d env)) = sub_mean img mean_vector \<and>
   render_observation (snd (reset d env)) = rimg"
proof -
  define i where "i = current_tilt (snd (reset d env))"
  define j where "j = current_pan (snd (reset d env))"
  have r: "0 \<le> i" "i < int (length tilts)" "0 \<le> j" "j < int (length pans)"
    using np_randint_range [of 0 "int (length tilts)" "tilt_draw d"]
      np_randint_range [of 0 "int (length pans)" "pan_draw d"]
    by (simp_all add: i_def j_def reset_drawn tilts_def pans_def)
  then have ix: "py_index tilts i = Inr (tilts ! nat i)" "py_index pans j = Inr (pans ! nat j)"
    by (simp_all add: py_index_in_range)
  have "fst (reset d env) =
     (case lookup (persons env) (current_person (snd (reset d env))) (tilts ! nat i, pans ! nat j) of
        Inl e \<Rightarrow> Inl e
      | Inr (img, rimg) \<Rightarrow> Inr (sub_mean img mean_vector)) \<and>
    (lookup (persons env) (current_person (snd (reset d env))) (tilts ! nat i, pans ! nat j) =
       Inr (img, rimg) \<longrightarrow>
     observation (snd (reset d env)) = sub_mean img mean_vector \<and>
     render_observation (snd (reset d env)) = rimg)"
  proof (cases rule: reset_cases [of d env])
    case (tilt_index p i' j')
    from tilt_index(1,2) ix show ?thesis by (simp add: i_def j_def)
  next
    case (pan_index p i' j' tilt)
    from pan_index(1,2,3) ix show ?thesis by (simp add: i_def j_def)
  next
    case (missing p i' j' tilt pan)
    from missing(1,2,3,4) ix show ?thesis by (simp add: i_def j_def)
  next
    case (returns p i' j' tilt pan obs robs)
    from returns(1,2,3,4) ix show ?thesis by (simp add: i_def j_def)
  qed
  then show "fst (reset d env) =
     (case lookup (persons env) (current_person (snd (reset d env)))
             (tilts ! nat (current_tilt (snd (reset d env))),
              pans ! nat (current_pan (snd (reset d env)))) of
        Inl e \<Rightarrow> Inl e
      | Inr (img, rimg) \<Rightarrow> Inr (sub_mean img mean_vector))"
    "lookup (persons env) (current_person (snd (reset d env)))
             (tilts ! nat (current_tilt (snd (reset d env))),
              pans ! nat (current_pan (snd (reset d env)))) = Inr (img, rimg) \<Longrightarrow>
   observation (snd (reset d env)) = sub_mean img mean_vector \<and>
   render_observation (snd (reset d env)) = rimg"
    by (simp_all add: i_def j_def)
qed


lemma side_reset:
  "testing testing_env"
  "(20::int) \<le> person_draw side_draws \<and> person_draw side_draws < 30"
  "0 \<le> tilt_draw side_draws \<and> tilt_draw side_draws < int (length tilts)"
  "0 \<le> pan_draw side_draws \<and> pan_draw side_draws < int (length pans)"
  "persons testing_env 27 = Some (varied_table 27)"
  "varied_table 27 (tilts ! nat 5, pans ! nat 2) =
     Some ([[(27, 30, - 60)]], [[(27, 30, - 60)], [(0, 0, 0)]])"
  "person_draw side_draws = 27" "tilt_draw side_draws = 5" "pan_draw side_draws = 2"
  "current_person testing_env = 24"
  by (simp_all add: testing_env_def side_draws_def varied_data_def varied_table_def
      init_def np_randint_def tilts_def pans_def)

lemma bare_reset:
  "\<not> testing bare_env" "persons bare_env 3 = None"
  "(0::int) \<le> person_draw centre_draws \<and> person_draw centre_draws < 20"
  "person_draw centre_draws = 3"
  by (simp_all add: bare_env_def centre_draws_def init_def)

text \<open>
  Claim C7. Let \<open>p\<close>, \<open>i\<close> and \<open>j\<close> be the person and the orientation indices that a
  call of \<open>reset\<close> leaves in the environment. Whatever the generator puts out, \<open>p\<close> is
  between 20 and 29 when the testing flag is set and between 0 and 19 otherwise, and
  \<open>i\<close> and \<open>j\<close> are indices of the two grids; an output inside the range is the value
  drawn, so every person of the pool and every cell of the grid can be drawn. When the
  dataset maps \<open>p\<close> to a table and the table maps \<open>(tilts[i], pans[j])\<close> to a pair of
  images, \<open>reset\<close> returns the first image with 109, 114 and 131 subtracted from the
  three channels of every pixel; this is the observation the environment then holds, and
  the second image is its display image. When the person or the key is missing, the call
  raises KeyError. No person can be drawn both with the flag set and without it.
\<close>

theorem reset_observation:
  "(let p = current_person (snd (reset d env));
        i = current_tilt (snd (reset d env));
        j = current_pan (snd (reset d env))
    in (if testing env then 20 \<le> p \<and> p < 30 else 0 \<le> p \<and> p < 20) \<and>
       0 \<le> i \<and> i < int (length tilts) \<and> 0 \<le> j \<and> j < int (length pans) \<and>
       (persons env p = Some tbl \<and> tbl (tilts ! nat i, pans ! nat j) = Some (img, rimg) \<longrightarrow>
          fst (reset d env) =
            Inr (map (map (\<lambda>(r, g, b). (r - 109, g - 114, b - 131))) img) \<and>
          observation (snd (reset d env)) =
            map (map (\<lambda>(r, g, b). (r - 109, g - 114, b - 131))) img \<and>
          render_observation (snd (reset d env)) = rimg) \<and>
       (persons env p = None \<or>
        (persons env p = Some tbl \<and> tbl (tilts ! nat i, pans ! nat j) = None) \<longrightarrow>
          fst (reset d env) = Inl KeyError) \<and>
       ((if testing env then 20 \<le> person_draw d \<and> person_draw d < 30
         else 0 \<le> person_draw d \<and> person_draw d < 20) \<longrightarrow> p = person_draw d) \<and>
       (0 \<le> tilt_draw d \<and> tilt_draw d < int (length tilts) \<longrightarrow> i = tilt_draw d) \<and>
       (0 \<le> pan_draw d \<and> pan_draw d < int (length pans) \<longrightarrow> j = pan_draw d)) \<and>
   current_person (snd (reset d1 (env\<lparr>testing := True\<rparr>))) \<noteq>
   current_person (snd (reset d2 (env\<lparr>testing := False\<rparr>)))"
proof -
  define p where "p = current_person (snd (reset d env))"
  define i where "i = current_tilt (snd (reset d env))"
  define j where "j = current_pan (snd (reset d env))"
  have pool: "if testing env then 20 \<le> p \<and> p < 30 else 0 \<le> p \<and> p < 20"
    using np_randint_range [of 20 30 "person_draw d"] np_randint_range [of 0 20 "person_draw d"]
    by (simp add: p_def reset_drawn)
  have grid: "0 \<le> i \<and> i < int (length tilts) \<and> 0 \<le> j \<and> j < int (length pans)"
    using np_randint_range [of 0 "int (length tilts)" "tilt_draw d"]
      np_randint_range [of 0 "int (length pans)" "pan_draw d"]
    by (simp add: i_def j_def reset_drawn tilts_def pans_def)
  have found: "fst (reset d env) =
            Inr (map (map (\<lambda>(r, g, b). (r - 109, g - 114, b - 131))) img) \<and>
          observation (snd (reset d env)) =
            map (map (\<lambda>(r, g, b). (r - 109, g - 114, b - 131))) img \<and>
          render_observation (snd (reset d env)) = rimg"
    if "persons env p = Some tbl \<and> tbl (tilts ! nat i, pans ! nat j) = Some (img, rimg)"
  proof -
    from that have "lookup (persons env) p (tilts ! nat i, pans ! nat j) = Inr (img, rimg)"
      by (simp add: lookup_found)
    then have l: "lookup (persons env) (current_person (snd (reset d env)))
             (tilts ! nat (current_tilt (snd (reset d env))),
              pans ! nat (current_pan (snd (reset d env)))) = Inr (img, rimg)"
      by (simp add: p_def i_def j_def)
    from reset_result(1) [of d env] reset_result(2) [OF l] l show ?thesis
      by (simp add: sub_mean_pixels)
  qed
  have missing: "fst (reset d env) = Inl KeyError"
    if "persons env p = None \<or>
        (persons env p = Some tbl \<and> tbl (tilts ! nat i, pans ! nat j) = None)"
  proof -
    from lookup_missing [OF that]
    have "lookup (persons env) (current_person (snd (reset d env)))
             (tilts ! nat (current_tilt (snd (reset d env))),
              pans ! nat (current_pan (snd (reset d env)))) = Inl KeyError"
      by (simp add: p_def i_def j_def)
    with reset_result(1) [of d env] show ?thesis by simp
  qed
  have same: "(if testing env then 20 \<le> person_draw d \<and> person_draw d < 30
         else 0 \<le> person_draw d \<and> person_draw d < 20) \<longrightarrow> p = person_draw d"
    "0 \<le> tilt_draw d \<and> tilt_draw d < int (length tilts) \<longrightarrow> i = tilt_draw d"
    "0 \<le> pan_draw d \<and> pan_draw d < int (length pans) \<longrightarrow> j = pan_draw d"
    by (auto simp: p_def i_def j_def reset_drawn np_randint_in_range randint_def
        split: if_splits)
  have apart: "current_person (snd (reset d1 (env\<lparr>testing := True\<rparr>))) \<noteq>
      current_person (snd (reset d2 (env\<lparr>testing := False\<rparr>)))"
    using np_randint_range [of 20 30 "person_draw d1"]
      np_randint_range [of 0 20 "person_draw d2"]
    by (simp add: reset_drawn)
  show ?thesis
    unfolding Let_def
    using pool grid found missing same apart
    by (simp only: p_def [symmetric] i_def [symmetric] j_def [symmetric]) blast
qed

theorem reset_observation_witness:
  "testing testing_env \<and>
   current_person (snd (reset side_draws testing_env)) = 27 \<and>
   current_tilt (snd (reset side_draws testing_env)) = 5 \<and>
   current_pan (snd (reset side_draws testing_env)) = 2 \<and>
   persons testing_env 27 = Some (varied_table 27) \<and>
   varied_table 27 (tilts ! nat 5, pans ! nat 2) =
     Some ([[(27, 30, - 60)]], [[(27, 30, - 60)], [(0, 0, 0)]]) \<and>
   fst (reset side_draws testing_env) = Inr [[(- 82, - 84, - 191)]] \<and>
   observation (snd (reset side_draws testing_env)) = [[(- 82, - 84, - 191)]] \<and>
   render_observation (snd (reset side_draws testing_env)) = [[(27, 30, - 60)], [(0, 0, 0)]] \<and>
   current_person (snd (reset centre_draws bare_env)) = 3 \<and>
   persons bare_env 3 = None \<and>
   fst (reset centre_draws bare_env) = Inl KeyError"
proof -
  note t = reset_observation [of side_draws testing_env "varied_table 27" "[[(27, 30, - 60)]]"
      "[[(27, 30, - 60)], [(0, 0, 0)]]" side_draws side_draws, unfolded Let_def]
  from t side_reset(1-4,7-9)
  have k: "current_person (snd (reset side_draws testing_env)) = 27"
    "current_tilt (snd (reset side_draws testing_env)) = 5"
    "current_pan (snd (reset side_draws testing_env)) = 2"
    by simp_all
  from t k side_reset(5,6)
  have o: "fst (reset side_draws testing_env) = Inr [[(- 82, - 84, - 191)]]"
    "observation (snd (reset side_draws testing_env)) = [[(- 82, - 84, - 191)]]"
    "render_observation (snd (reset side_draws testing_env)) = [[(27, 30, - 60)], [(0, 0, 0)]]"
    by simp_all
  note b = reset_observation [of centre_draws bare_env "varied_table 27" "[]" "[]"
      centre_draws centre_draws, unfolded Let_def]
  from b bare_reset have p: "current_person (snd (reset centre_draws bare_env)) = 3"
    by simp
  from b p bare_reset(2) have e: "fst (reset centre_draws bare_env) = Inl KeyError"
    by simp
  from k o p e side_reset(1,5,6) bare_reset(2) show ?thesis by simp
qed

end
